theory Spec2Isabelle
  imports Complex_Main "HOL-Library.Log_Nat"
begin

section \<open>JavaScript numbers and values\<close>

text \<open>
  A JavaScript number is an IEEE 754 double. A finite double is given by its value, a
  real number; \<open>Fin 0\<close> is \<open>+0\<close>, and \<open>-0\<close>, the two infinities and \<open>NaN\<close> are values of
  their own. Every arithmetic operation rounds its exact result to the nearest double,
  ties to the even significand.
\<close>

datatype jsnum = Fin real | NegZero | PInf | NInf | NaN

text \<open>
  \<open>round64 x\<close> is the double nearest to a non-zero real \<open>x\<close>. \<open>exponent a\<close> is the
  integer \<open>e\<close> with \<open>2^e \<le> a < 2^(e+1)\<close>; a double has 53 significant bits and its
  exponent is at least \<open>-1022\<close>, so the doubles around \<open>a\<close> are the multiples of
  \<open>q = 2^(max e (-1022) - 52)\<close>. A result of magnitude \<open>2^1024\<close> or more is an
  infinity, and a result that rounds to zero keeps its sign.
\<close>

definition pow2 :: "int \<Rightarrow> real" where
  "pow2 e = (if 0 \<le> e then 2 ^ nat e else 1 / 2 ^ nat (- e))"

definition exponent :: "real \<Rightarrow> int" where
  "exponent a = (if 1 \<le> a then bitlen \<lfloor>a\<rfloor> - 1 else - bitlen (\<lceil>1 / a\<rceil> - 1))"

definition round_even :: "real \<Rightarrow> int" where
  "round_even y =
     (let f = \<lfloor>y\<rfloor>; d = y - of_int f
      in if d < 1 / 2 then f else if 1 / 2 < d then f + 1 else if even f then f else f + 1)"

definition round64 :: "real \<Rightarrow> jsnum" where
  "round64 x =
     (let a = \<bar>x\<bar>;
          q = pow2 (max (exponent a) (- 1022) - 52);
          r = of_int (round_even (a / q)) * q
      in if pow2 1024 \<le> r then (if 0 < x then PInf else NInf)
         else if r = 0 then (if 0 < x then Fin 0 else NegZero)
         else Fin (if 0 < x then r else - r))"

text \<open>The value of a finite number, its sign bit, and the signed results.\<close>

fun val :: "jsnum \<Rightarrow> real" where
  "val (Fin x) = x"
| "val NegZero = 0"
| "val PInf = 0"
| "val NInf = 0"
| "val NaN = 0"

fun negative :: "jsnum \<Rightarrow> bool" where
  "negative (Fin x) = (x < 0)"
| "negative NegZero = True"
| "negative PInf = False"
| "negative NInf = True"
| "negative NaN = False"

definition is_inf :: "jsnum \<Rightarrow> bool" where
  "is_inf v = (v = PInf \<or> v = NInf)"

definition is_zero :: "jsnum \<Rightarrow> bool" where
  "is_zero v = (v = Fin 0 \<or> v = NegZero)"

definition signed_inf :: "bool \<Rightarrow> jsnum" where
  "signed_inf neg = (if neg then NInf else PInf)"

definition signed_zero :: "bool \<Rightarrow> jsnum" where
  "signed_zero neg = (if neg then NegZero else Fin 0)"

text \<open>The operators \<open>+\<close>, \<open>*\<close> and \<open>/\<close> on numbers.\<close>

definition js_add :: "jsnum \<Rightarrow> jsnum \<Rightarrow> jsnum" where
  "js_add x y =
     (if x = NaN \<or> y = NaN then NaN
      else if is_inf x then (if is_inf y \<and> y \<noteq> x then NaN else x)
      else if is_inf y then y
      else if val x + val y = 0 then (if x = NegZero \<and> y = NegZero then NegZero else Fin 0)
      else round64 (val x + val y))"

definition js_mul :: "jsnum \<Rightarrow> jsnum \<Rightarrow> jsnum" where
  "js_mul x y =
     (if x = NaN \<or> y = NaN then NaN
      else if is_inf x \<or> is_inf y
      then (if is_zero x \<or> is_zero y then NaN else signed_inf (negative x \<noteq> negative y))
      else if val x * val y = 0 then signed_zero (negative x \<noteq> negative y)
      else round64 (val x * val y))"

definition js_div :: "jsnum \<Rightarrow> jsnum \<Rightarrow> jsnum" where
  "js_div x y =
     (if x = NaN \<or> y = NaN then NaN
      else if is_inf x then (if is_inf y then NaN else signed_inf (negative x \<noteq> negative y))
      else if is_inf y then signed_zero (negative x \<noteq> negative y)
      else if val y = 0
      then (if val x = 0 then NaN else signed_inf (negative x \<noteq> negative y))
      else if val x = 0 then signed_zero (negative x \<noteq> negative y)
      else round64 (val x / val y))"

text \<open>The comparisons \<open>x >= t\<close> and \<open>x > t\<close> against a finite literal \<open>t\<close>;
  every comparison with \<open>NaN\<close> is false.\<close>

fun js_ge :: "jsnum \<Rightarrow> real \<Rightarrow> bool" where
  "js_ge (Fin x) t = (t \<le> x)"
| "js_ge NegZero t = (t \<le> 0)"
| "js_ge PInf t = True"
| "js_ge NInf t = False"
| "js_ge NaN t = False"

fun js_gt :: "jsnum \<Rightarrow> real \<Rightarrow> bool" where
  "js_gt (Fin x) t = (t < x)"
| "js_gt NegZero t = (t < 0)"
| "js_gt PInf t = True"
| "js_gt NInf t = False"
| "js_gt NaN t = False"

text \<open>
  \<open>x.toFixed(1)\<close>, the decimal string being represented by the number it denotes: the
  exact value of the double rounded to one decimal, a tie going away from zero, with
  the sign of \<open>x\<close> when \<open>x < 0\<close> (so \<open>-0.04\<close> prints as \<open>-0.0\<close> and \<open>-0\<close> as \<open>0.0\<close>). The
  special values print as themselves. A double of magnitude \<open>10^21\<close> or more is an
  integer and prints in exponent notation; it is represented by itself. \<open>parseFloat\<close>
  reads such a string back as the nearest double.
\<close>

fun toFixed1 :: "jsnum \<Rightarrow> jsnum" where
  "toFixed1 (Fin x) =
     (if x < 0
      then (if \<lfloor>- x * 10 + 1 / 2\<rfloor> = 0 then NegZero
            else Fin (- (of_int \<lfloor>- x * 10 + 1 / 2\<rfloor> / 10)))
      else Fin (of_int \<lfloor>x * 10 + 1 / 2\<rfloor> / 10))"
| "toFixed1 NegZero = Fin 0"
| "toFixed1 PInf = PInf"
| "toFixed1 NInf = NInf"
| "toFixed1 NaN = NaN"

fun parseFloat :: "jsnum \<Rightarrow> jsnum" where
  "parseFloat (Fin x) = (if x = 0 then Fin 0 else round64 x)"
| "parseFloat NegZero = NegZero"
| "parseFloat PInf = PInf"
| "parseFloat NInf = NInf"
| "parseFloat NaN = NaN"

text \<open>The values a numeric field of a JSON record can hold: absent (\<open>undefined\<close>),
  \<open>null\<close>, or a number.\<close>

datatype jsval = Undefined | Null | Number jsnum

fun to_number :: "jsval \<Rightarrow> jsnum" where
  "to_number Undefined = NaN"
| "to_number Null = Fin 0"
| "to_number (Number n) = n"

fun truthy :: "jsval \<Rightarrow> bool" where
  "truthy Undefined = False"
| "truthy Null = False"
| "truthy (Number (Fin x)) = (x \<noteq> 0)"
| "truthy (Number NegZero) = False"
| "truthy (Number NaN) = False"
| "truthy (Number PInf) = True"
| "truthy (Number NInf) = True"

text \<open>The operator \<open>a || b\<close>.\<close>

definition js_or :: "jsval \<Rightarrow> jsval \<Rightarrow> jsval" where
  "js_or a b = (if truthy a then a else b)"

section \<open>Gradebook module (js/components/auth.js)\<close>

text \<open>The module keeps the loaded tables in the variables \<open>usersData\<close>, \<open>classesData\<close>,
  \<open>enrollmentsData\<close>, \<open>assignmentsData\<close> and \<open>gradesData\<close>; here they are arguments. Only
  the fields the modelled functions read are kept.\<close>

record user =
  u_id :: string
  u_display_name :: string
  u_role :: string

record class_section =
  c_id :: string
  c_name :: string

record enrollment =
  e_id :: string
  e_student_id :: string
  e_class_id :: string
  e_status :: string

record assignment =
  a_id :: string
  a_class_id :: string
  a_title :: string
  a_status :: string
  a_weight :: jsval

record grade =
  g_id :: string
  g_student_id :: string
  g_class_id :: string
  g_assignment_id :: string
  g_points :: jsnum
  g_max_points :: jsnum
  g_weight :: jsval

text \<open>\<open>getLetterGrade\<close> (lines 327-341); the assignments module holds an identical
  copy (js/components/assignments.js, lines 428-442).\<close>

definition getLetterGrade :: "jsnum \<Rightarrow> string" where
  "getLetterGrade pct =
     (if js_ge pct 97 then ''A+''
      else if js_ge pct 93 then ''A''
      else if js_ge pct 90 then ''A-''
      else if js_ge pct 87 then ''B+''
      else if js_ge pct 83 then ''B''
      else if js_ge pct 80 then ''B-''
      else if js_ge pct 77 then ''C+''
      else if js_ge pct 73 then ''C''
      else if js_ge pct 70 then ''C-''
      else if js_ge pct 67 then ''D+''
      else if js_ge pct 63 then ''D''
      else if js_ge pct 60 then ''D-''
      else ''F'')"

text \<open>\<open>getClassStudents\<close> (lines 320-325; the attendance module,
  js/components/toast.js lines 313-318, holds the same function).\<close>

definition getClassStudents :: "user list \<Rightarrow> enrollment list \<Rightarrow> string \<Rightarrow> user list" where
  "getClassStudents usersData enrollmentsData classId =
     (let studentIds =
            map e_student_id
              (filter (\<lambda>e. e_class_id e = classId \<and> e_status e = ''active'') enrollmentsData)
      in filter (\<lambda>u. u_id u \<in> set studentIds) usersData)"

text \<open>The table cells that show either a value or the dash placeholder.\<close>

datatype 'a cell = Placeholder | Shown 'a

text \<open>\<open>renderClassGradebook\<close>, the computation of one student's row (lines 198 and
  212-236). \<open>classAssignments\<close> is the filter of line 198, \<open>effectiveWeight\<close> the
  expression \<open>grade.weight || a.weight || 0.25\<close> of lines 223 and 224, \<open>gradebookStep\<close>
  the body of the loop over the assignments, with the two running totals as a pair
  \<open>(totalWeightedScore, totalWeight)\<close>.\<close>

definition classAssignments :: "assignment list \<Rightarrow> string \<Rightarrow> assignment list" where
  "classAssignments assignmentsData classId =
     filter (\<lambda>a. a_class_id a = classId \<and> a_status a \<noteq> ''draft'') assignmentsData"

definition effectiveWeight :: "grade \<Rightarrow> assignment \<Rightarrow> jsnum" where
  "effectiveWeight g a =
     to_number (js_or (js_or (g_weight g) (a_weight a)) (Number (Fin (1 / 4))))"

definition gradebookStep ::
  "grade list \<Rightarrow> string \<Rightarrow> jsnum \<times> jsnum \<Rightarrow> assignment \<Rightarrow> jsnum \<times> jsnum" where
  "gradebookStep gradesData sid acc a =
     (case find (\<lambda>g. g_student_id g = sid \<and> g_assignment_id g = a_id a) gradesData of
        Some g \<Rightarrow>
          (js_add (fst acc) (js_mul (js_div (g_points g) (g_max_points g)) (effectiveWeight g a)),
           js_add (snd acc) (effectiveWeight g a))
      | None \<Rightarrow> acc)"

definition gradebookTotals :: "grade list \<Rightarrow> string \<Rightarrow> assignment list \<Rightarrow> jsnum \<times> jsnum" where
  "gradebookTotals gradesData sid assignments =
     foldl (gradebookStep gradesData sid) (Fin 0, Fin 0) assignments"

text \<open>The expression of lines 230 and 293:
  \<open>totalWeight > 0 ? (totalWeightedScore / totalWeight * 100).toFixed(1) : dash\<close>.\<close>

definition weightedAvgText :: "jsnum \<times> jsnum \<Rightarrow> jsnum cell" where
  "weightedAvgText totals =
     (if js_gt (snd totals) 0
      then Shown (toFixed1 (js_mul (js_div (fst totals) (snd totals)) (Fin 100)))
      else Placeholder)"

definition gradebookRow ::
  "grade list \<Rightarrow> assignment list \<Rightarrow> string \<Rightarrow> jsnum cell \<times> string cell" where
  "gradebookRow gradesData assignments sid =
     (let totals = gradebookTotals gradesData sid assignments;
          weightedAvg = weightedAvgText totals;
          letterGrade =
            (if js_gt (snd totals) 0
             then (case weightedAvg of
                     Shown v \<Rightarrow> Shown (getLetterGrade (parseFloat v))
                   | Placeholder \<Rightarrow> Placeholder)
             else Placeholder)
      in (weightedAvg, letterGrade))"

text \<open>
  \<open>renderClassGradebook\<close> as a whole (lines 190-240). The class id is the value of the
  class selector, the empty string when no class is chosen. The page is nothing at all
  when the container element is missing, a message when no class is chosen or when the
  class has no active student, and otherwise a table with one row for each student of
  the roster; a row is given by the student and the two cells of \<open>gradebookRow\<close>, the
  cells of the single assignments being left out.
\<close>

datatype gradebook_page =
    NoGradebook | SelectClassMessage | NoStudentsMessage
  | GradebookTable "(string \<times> jsnum cell \<times> string cell) list"

definition renderClassGradebook ::
  "bool \<Rightarrow> user list \<Rightarrow> enrollment list \<Rightarrow> assignment list \<Rightarrow> grade list \<Rightarrow> string \<Rightarrow>
     gradebook_page" where
  "renderClassGradebook container usersData enrollmentsData assignmentsData gradesData classId =
     (if \<not> container \<or> classId = []
      then (if container then SelectClassMessage else NoGradebook)
      else
        let students = getClassStudents usersData enrollmentsData classId;
            assignments = classAssignments assignmentsData classId
        in if students = [] then NoStudentsMessage
           else GradebookTable
                  (map (\<lambda>s. (u_id s, gradebookRow gradesData assignments (u_id s))) students))"

text \<open>
  \<open>renderStudentGrades\<close> (lines 246-299). \<open>studentStep\<close> is the body of the loop over
  the grades of one class and \<open>studentClassAverage\<close> the average row of that class
  (lines 269-293). The page is nothing at all when the container element is missing,
  the message \<open>No grades recorded yet.\<close> when the student has no grade, and otherwise
  one table for each class the student is actively enrolled in that exists in the class
  table and has a grade of the student; a table is given by the class and its average
  row, the rows of the single grades being left out.
\<close>

definition studentStep :: "jsnum \<times> jsnum \<Rightarrow> grade \<Rightarrow> jsnum \<times> jsnum" where
  "studentStep acc g =
     (js_add (fst acc) (js_mul (js_div (g_points g) (g_max_points g)) (to_number (g_weight g))),
      js_add (snd acc) (to_number (g_weight g)))"

definition studentClassAverage :: "grade list \<Rightarrow> jsnum cell" where
  "studentClassAverage classGrades =
     weightedAvgText (foldl studentStep (Fin 0, Fin 0) classGrades)"

datatype student_page = NoPage | NoGradesMessage | ClassTables "(string \<times> jsnum cell) list"

definition studentClassTable ::
  "class_section list \<Rightarrow> grade list \<Rightarrow> string \<Rightarrow> (string \<times> jsnum cell) list" where
  "studentClassTable classesData myGrades classId =
     (case find (\<lambda>c. c_id c = classId) classesData of
        None \<Rightarrow> []
      | Some cls \<Rightarrow>
          (let classGrades = filter (\<lambda>g. g_class_id g = classId) myGrades
           in if classGrades = [] then [] else [(classId, studentClassAverage classGrades)]))"

definition renderStudentGrades ::
  "bool \<Rightarrow> class_section list \<Rightarrow> enrollment list \<Rightarrow> grade list \<Rightarrow> string \<Rightarrow> student_page" where
  "renderStudentGrades container classesData enrollmentsData gradesData userId =
     (if \<not> container then NoPage
      else
        let myClassIds =
              map e_class_id
                (filter (\<lambda>e. e_student_id e = userId \<and> e_status e = ''active'') enrollmentsData);
            myGrades = filter (\<lambda>g. g_student_id g = userId) gradesData
        in if myGrades = [] then NoGradesMessage
           else ClassTables (concat (map (studentClassTable classesData myGrades) myClassIds)))"

section \<open>Attendance module (js/components/toast.js)\<close>

record attendance =
  att_id :: string
  att_class_id :: string
  att_student_id :: string
  att_date :: string
  att_status :: string
  att_recorded_by :: "string option"
  att_recorded_at :: "string option"
  att_note :: "string option"

text \<open>\<open>Array.prototype.findIndex\<close>; \<open>None\<close> stands for the result \<open>-1\<close>.\<close>

fun findIndex :: "('a \<Rightarrow> bool) \<Rightarrow> 'a list \<Rightarrow> nat option" where
  "findIndex P [] = None"
| "findIndex P (x # xs) = (if P x then Some 0 else map_option Suc (findIndex P xs))"

text \<open>
  \<open>saveAttendance\<close> (lines 210-252). The state it works on is the module's array
  \<open>attendanceData\<close>, the number of calls made to \<open>generateId\<close> and the local counter
  \<open>count\<close>. \<open>generateId\<close> draws on the clock and on \<open>Math.random\<close>: the identifier
  returned by its \<open>n\<close>-th call within one save is the argument \<open>generateId n\<close>. A toggle
  group is given by its pressed button, \<open>Some (data-student, data-status)\<close>, or \<open>None\<close>
  when no button of the group is pressed. \<open>same_key\<close> is the predicate handed to
  \<open>findIndex\<close>, \<open>attRecord\<close> the object literal of lines 230-239, \<open>saveToggle\<close> the body
  of the \<open>forEach\<close>.
\<close>

record save_state =
  attendanceData :: "attendance list"
  generated :: nat
  count :: nat

definition same_key :: "string \<Rightarrow> string \<Rightarrow> string \<Rightarrow> attendance \<Rightarrow> bool" where
  "same_key classId studentId date a =
     (att_class_id a = classId \<and> att_student_id a = studentId \<and> att_date a = date)"

definition attRecord ::
  "string \<Rightarrow> string \<Rightarrow> string \<Rightarrow> string \<Rightarrow> string \<Rightarrow> string \<Rightarrow> string \<Rightarrow> attendance" where
  "attRecord rid classId studentId date status userId now =
     \<lparr>att_id = rid, att_class_id = classId, att_student_id = studentId, att_date = date,
      att_status = status, att_recorded_by = Some userId, att_recorded_at = Some now,
      att_note = None\<rparr>"

definition saveToggle ::
  "(nat \<Rightarrow> string) \<Rightarrow> string \<Rightarrow> string \<Rightarrow> string \<Rightarrow> string \<Rightarrow>
     save_state \<Rightarrow> (string \<times> string) option \<Rightarrow> save_state" where
  "saveToggle generateId classId date userId now st pressed =
     (case pressed of
        None \<Rightarrow> st
      | Some (studentId, status) \<Rightarrow>
          (case findIndex (same_key classId studentId date) (attendanceData st) of
             Some existingIdx \<Rightarrow>
               st\<lparr>attendanceData :=
                    (attendanceData st)
                      [existingIdx :=
                         attRecord (att_id (attendanceData st ! existingIdx))
                           classId studentId date status userId now],
                  count := count st + 1\<rparr>
           | None \<Rightarrow>
               st\<lparr>attendanceData :=
                    attendanceData st @
                      [attRecord (generateId (generated st)) classId studentId date status userId now],
                  generated := Suc (generated st),
                  count := count st + 1\<rparr>))"

text \<open>The first argument after \<open>generateId\<close> is the roster container: \<open>None\<close> when the
  element is missing (the function returns at once), otherwise its toggle groups in
  document order. The resulting array is also what \<open>saveData\<close> persists.\<close>

definition saveAttendance ::
  "(nat \<Rightarrow> string) \<Rightarrow> (string \<times> string) option list option \<Rightarrow>
     string \<Rightarrow> string \<Rightarrow> string \<Rightarrow> string \<Rightarrow> attendance list \<Rightarrow> save_state option" where
  "saveAttendance generateId container classId date userId now data =
     (case container of
        None \<Rightarrow> None
      | Some toggles \<Rightarrow>
          Some (foldl (saveToggle generateId classId date userId now)
                  \<lparr>attendanceData = data, generated = 0, count = 0\<rparr> toggles))"

section \<open>JavaScript strings and objects\<close>

text \<open>
  A string is represented by the bytes of its UTF-8 encoding. The characters the code
  tests for (double quote, comma, line feed, carriage return, slash) are single bytes
  and no byte of a longer sequence equals one of them, so a loop over the code units of
  a string that looks for these characters is a loop over the bytes. \<open>code_points\<close>
  splits a string into its characters, a leading byte with the continuation bytes that
  follow it. \<open>white_space\<close> lists the characters that \<open>String.prototype.trim\<close> removes and
  that the white-space class of a regular expression matches: the white-space and
  line-terminator code points U+0009 to U+000D, U+0020, U+00A0, U+1680, U+2000 to
  U+200A, U+2028, U+2029, U+202F, U+205F, U+3000 and U+FEFF.
\<close>

abbreviation DQUOTE :: char where "DQUOTE \<equiv> CHR 0x22"
abbreviation COMMA :: char where "COMMA \<equiv> CHR 0x2C"
abbreviation LF :: char where "LF \<equiv> CHR 0x0A"
abbreviation CR :: char where "CR \<equiv> CHR 0x0D"

definition is_continuation :: "char \<Rightarrow> bool" where
  "is_continuation c = (128 \<le> (of_char c :: nat) \<and> (of_char c :: nat) < 192)"

function code_points :: "string \<Rightarrow> string list" where
  "code_points [] = []"
| "code_points (c # cs) =
     (c # takeWhile is_continuation cs) # code_points (dropWhile is_continuation cs)"
  by pat_completeness auto
termination
  by (relation "measure length") (auto simp: less_Suc_eq_le length_dropWhile_le)

definition white_space :: "string list" where
  "white_space =
     [[CHR 0x09], [CHR 0x0A], [CHR 0x0B], [CHR 0x0C], [CHR 0x0D], [CHR 0x20],
      [CHR 0xC2, CHR 0xA0], [CHR 0xE1, CHR 0x9A, CHR 0x80],
      [CHR 0xE2, CHR 0x80, CHR 0x80], [CHR 0xE2, CHR 0x80, CHR 0x81],
      [CHR 0xE2, CHR 0x80, CHR 0x82], [CHR 0xE2, CHR 0x80, CHR 0x83],
      [CHR 0xE2, CHR 0x80, CHR 0x84], [CHR 0xE2, CHR 0x80, CHR 0x85],
      [CHR 0xE2, CHR 0x80, CHR 0x86], [CHR 0xE2, CHR 0x80, CHR 0x87],
      [CHR 0xE2, CHR 0x80, CHR 0x88], [CHR 0xE2, CHR 0x80, CHR 0x89],
      [CHR 0xE2, CHR 0x80, CHR 0x8A], [CHR 0xE2, CHR 0x80, CHR 0xA8],
      [CHR 0xE2, CHR 0x80, CHR 0xA9], [CHR 0xE2, CHR 0x80, CHR 0xAF],
      [CHR 0xE2, CHR 0x81, CHR 0x9F], [CHR 0xE3, CHR 0x80, CHR 0x80],
      [CHR 0xEF, CHR 0xBB, CHR 0xBF]]"

definition is_space :: "string \<Rightarrow> bool" where
  "is_space ch = (ch \<in> set white_space)"

definition trim :: "string \<Rightarrow> string" where
  "trim s = concat (rev (dropWhile is_space (rev (dropWhile is_space (code_points s)))))"

text \<open>
  A read \<open>obj[key]\<close> on a plain object that finds no own property continues in
  \<open>Object.prototype\<close>, whose property names in the V8 runtime (Node.js, Chrome) are
  listed below; every one of these inherited values is truthy. \<open>get_prop\<close> is that
  read: an own value, an inherited built-in (named by its key), or \<open>undefined\<close>.
\<close>

definition object_prototype_keys :: "string list" where
  "object_prototype_keys =
     [''constructor'', ''__defineGetter__'', ''__defineSetter__'', ''hasOwnProperty'',
      ''__lookupGetter__'', ''__lookupSetter__'', ''isPrototypeOf'', ''propertyIsEnumerable'',
      ''toString'', ''valueOf'', ''__proto__'', ''toLocaleString'']"

datatype 'a lookup = Own 'a | Inherited string | Absent

definition get_prop :: "(string \<times> 'a) list \<Rightarrow> string \<Rightarrow> 'a lookup" where
  "get_prop obj k =
     (case map_of obj k of
        Some v \<Rightarrow> Own v
      | None \<Rightarrow> if k \<in> set object_prototype_keys then Inherited k else Absent)"


section \<open>CSV codec\<close>

subsection \<open>The parser (scripts/csv-to-json.js, lines 27-68)\<close>

text \<open>\<open>replace_crlf\<close> and \<open>replace_cr\<close> are the two \<open>replace\<close> calls of line 32.
  \<open>parse_chars\<close> is the loop over the characters, its arguments after the remaining
  input being the variables \<open>inQuotes\<close>, \<open>field\<close>, \<open>row\<close> and \<open>rows\<close>; at the end of the
  input it performs lines 64 and 65. \<open>push_row\<close> is the statement
  \<open>if (row.some(f => f !== '')) rows.push(row)\<close>.\<close>

fun replace_crlf :: "string \<Rightarrow> string" where
  "replace_crlf (c # d # cs) =
     (if c = CR \<and> d = LF then LF # replace_crlf cs else c # replace_crlf (d # cs))"
| "replace_crlf cs = cs"

definition replace_cr :: "string \<Rightarrow> string" where
  "replace_cr cs = map (\<lambda>c. if c = CR then LF else c) cs"

definition push_row :: "string list \<Rightarrow> string list list \<Rightarrow> string list list" where
  "push_row row rows = (if \<exists>f \<in> set row. f \<noteq> [] then rows @ [row] else rows)"

fun parse_chars ::
  "string \<Rightarrow> bool \<Rightarrow> string \<Rightarrow> string list \<Rightarrow> string list list \<Rightarrow> string list list" where
  "parse_chars [] inQuotes field row rows = push_row (row @ [trim field]) rows"
| "parse_chars (c # cs) inQuotes field row rows =
     (if inQuotes then
        (if c = DQUOTE \<and> (case cs of [] \<Rightarrow> False | next # _ \<Rightarrow> next = DQUOTE)
         then parse_chars (tl cs) True (field @ [DQUOTE]) row rows
         else if c = DQUOTE then parse_chars cs False field row rows
         else parse_chars cs True (field @ [c]) row rows)
      else
        (if c = DQUOTE then parse_chars cs True field row rows
         else if c = COMMA then parse_chars cs False [] (row @ [trim field]) rows
         else if c = LF then parse_chars cs False [] [] (push_row (row @ [trim field]) rows)
         else parse_chars cs False (field @ [c]) row rows))"

definition parseCSV :: "string \<Rightarrow> string list list" where
  "parseCSV text = parse_chars (replace_cr (replace_crlf text)) False [] [] []"

subsection \<open>The serializer (js/storage.js, lines 119-142)\<close>

text \<open>
  A record is an association list with distinct keys, in insertion order; a field
  holds \<open>None\<close> for \<open>null\<close> and otherwise the text that \<open>String(val)\<close> gives.
  \<open>field_text\<close> is \<open>String(row[c] ?? '')\<close>: the read \<open>row[c]\<close> also finds the properties
  a record inherits, and the text that \<open>String\<close> gives for such a built-in value is
  the argument \<open>builtin\<close>. \<open>escape_value\<close> is the quoting of lines 128-131, \<open>join\<close> is
  \<open>Array.prototype.join\<close>. \<open>exportCSV\<close> returns the file name and the text handed to the
  download, or \<open>None\<close> when it returns without a download.
\<close>

fun join :: "string \<Rightarrow> string list \<Rightarrow> string" where
  "join sep [] = []"
| "join sep [x] = x"
| "join sep (x # y # xs) = x @ sep @ join sep (y # xs)"

type_synonym row_object = "(string \<times> string option) list"

definition field_text :: "(string \<Rightarrow> string) \<Rightarrow> row_object \<Rightarrow> string \<Rightarrow> string" where
  "field_text builtin row c =
     (case get_prop row c of
        Own (Some v) \<Rightarrow> v
      | Own None \<Rightarrow> []
      | Inherited k \<Rightarrow> builtin k
      | Absent \<Rightarrow> [])"

definition escape_value :: "string \<Rightarrow> string" where
  "escape_value str =
     (if COMMA \<in> set str \<or> DQUOTE \<in> set str \<or> LF \<in> set str
      then [DQUOTE] @ concat (map (\<lambda>c. if c = DQUOTE then [DQUOTE, DQUOTE] else [c]) str) @ [DQUOTE]
      else str)"

definition exportCSV ::
  "(string \<Rightarrow> string) \<Rightarrow> row_object list \<Rightarrow> string \<Rightarrow> string list option \<Rightarrow>
     (string \<times> string) option" where
  "exportCSV builtin data filename columns =
     (if data = [] then None
      else
        let cols = (case columns of Some cs \<Rightarrow> cs | None \<Rightarrow> map fst (hd data));
            header = join [COMMA] cols;
            rows = map (\<lambda>row. join [COMMA] (map (\<lambda>c. escape_value (field_text builtin row c)) cols))
                     data;
            csv = join [LF] (header # rows)
        in Some (filename, csv))"

section \<open>CSV import script (scripts/csv-to-json.js)\<close>

subsection \<open>Field mappings (lines 73-145)\<close>

text \<open>The object literal \<open>FIELD_MAPS\<close>, its own properties in source order.\<close>

definition FIELD_MAPS :: "(string \<times> (string \<times> string) list) list" where
  "FIELD_MAPS =
    [(''users'',
       [(''student_id'', ''id''), (''teacher_id'', ''id''), (''user_id'', ''id''), (''id'', ''id''),
        (''username'', ''username''), (''user_name'', ''username''), (''login'', ''username''),
        (''display_name'', ''display_name''), (''name'', ''display_name''),
        (''full_name'', ''display_name''),
        (''first_name'', ''_first_name''), (''last_name'', ''_last_name''),
        (''email'', ''email''), (''email_address'', ''email''),
        (''role'', ''role''), (''user_type'', ''role''), (''type'', ''role''),
        (''year_level'', ''year_level''), (''grade_level'', ''year_level''),
        (''year'', ''year_level'')]),
     (''classes'',
       [(''class_id'', ''id''), (''id'', ''id''), (''code'', ''id''),
        (''class_name'', ''name''), (''name'', ''name''), (''subject'', ''name''),
        (''teacher_id'', ''teacher_id''), (''teacher'', ''teacher_id''),
        (''room'', ''room''), (''classroom'', ''room''),
        (''year_level'', ''year_level''), (''grade'', ''year_level'')]),
     (''enrollments'',
       [(''enrollment_id'', ''id''), (''id'', ''id''),
        (''student_id'', ''student_id''), (''student'', ''student_id''),
        (''class_id'', ''class_id''), (''class'', ''class_id'')]),
     (''attendance'',
       [(''record_id'', ''id''), (''id'', ''id''),
        (''class_id'', ''class_id''), (''class'', ''class_id''),
        (''student_id'', ''student_id''), (''student'', ''student_id''),
        (''date'', ''date''),
        (''status'', ''status''), (''attendance_status'', ''status''),
        (''marked_by'', ''marked_by''), (''teacher'', ''marked_by'')]),
     (''assignments'',
       [(''assignment_id'', ''id''), (''id'', ''id''),
        (''class_id'', ''class_id''), (''class'', ''class_id''),
        (''title'', ''title''), (''name'', ''title''),
        (''description'', ''description''), (''details'', ''description''),
        (''due_date'', ''due_date''), (''due'', ''due_date''),
        (''max_points'', ''max_points''), (''points'', ''max_points''),
        (''total_marks'', ''max_points''),
        (''weight'', ''weight''),
        (''status'', ''status'')]),
     (''submissions'',
       [(''submission_id'', ''id''), (''id'', ''id''),
        (''assignment_id'', ''assignment_id''),
        (''student_id'', ''student_id''), (''student'', ''student_id''),
        (''submitted_at'', ''submitted_at''), (''submission_date'', ''submitted_at''),
        (''content'', ''content''), (''body'', ''content''), (''text'', ''content''),
        (''status'', ''status'')]),
     (''grades'',
       [(''grade_id'', ''id''), (''id'', ''id''),
        (''assignment_id'', ''assignment_id''),
        (''student_id'', ''student_id''), (''student'', ''student_id''),
        (''points'', ''points''), (''score'', ''points''), (''mark'', ''points''),
        (''letter'', ''letter''), (''grade'', ''letter''),
        (''feedback'', ''feedback''), (''comment'', ''feedback''), (''comments'', ''feedback'')]),
     (''timetable'',
       [(''slot_id'', ''id''), (''id'', ''id''),
        (''class_id'', ''class_id''), (''class'', ''class_id''),
        (''day'', ''day''), (''day_of_week'', ''day''),
        (''start_time'', ''start_time''), (''start'', ''start_time''),
        (''end_time'', ''end_time''), (''end'', ''end_time''),
        (''room'', ''room''), (''location'', ''room'')]),
     (''announcements'',
       [(''announcement_id'', ''id''), (''id'', ''id''),
        (''title'', ''title''), (''subject'', ''title''),
        (''body'', ''body''), (''content'', ''body''), (''message'', ''body''),
        (''author_id'', ''author_id''), (''author'', ''author_id''),
        (''priority'', ''priority''),
        (''status'', ''status'')])]"

text \<open>
  What the script asks of the runtime and is not defined here: \<open>Number(value)\<close> on a
  string; \<open>toLowerCase\<close> on a string; the text \<open>String(v)\<close> of an inherited built-in
  \<open>v\<close>, which is the key that \<open>record[v] = value\<close> writes; and a read \<open>v[header]\<close> on an
  inherited built-in, given as the text of the value read when that value is truthy
  and \<open>None\<close> otherwise.
\<close>

record runtime =
  js_Number :: "string \<Rightarrow> jsnum"
  js_toLowerCase :: "string \<Rightarrow> string"
  builtin_text :: "string \<Rightarrow> string"
  builtin_get :: "string \<Rightarrow> string \<Rightarrow> string option"

subsection \<open>Conversion (lines 149-198)\<close>

text \<open>A converted record maps field names to strings or, for the coerced fields, to
  numbers. \<open>truthy_value\<close> is the truth value of a field read such as \<open>record.id\<close>.\<close>

datatype import_value = Str string | Num jsnum

type_synonym import_record = "string \<rightharpoonup> import_value"

fun truthy_value :: "import_value option \<Rightarrow> bool" where
  "truthy_value None = False"
| "truthy_value (Some (Str s)) = (s \<noteq> [])"
| "truthy_value (Some (Num (Fin x))) = (x \<noteq> 0)"
| "truthy_value (Some (Num NegZero)) = False"
| "truthy_value (Some (Num NaN)) = False"
| "truthy_value (Some (Num PInf)) = True"
| "truthy_value (Some (Num NInf)) = True"

text \<open>The second half of the header normalisation of line 157: every run of white
  space is replaced by one underscore. \<open>replace_spaces\<close> goes through the characters
  and carries a flag telling whether the previous character belonged to such a run.\<close>

fun replace_spaces :: "bool \<Rightarrow> string list \<Rightarrow> string" where
  "replace_spaces inRun [] = []"
| "replace_spaces inRun (ch # chs) =
     (if is_space ch
      then (if inRun then replace_spaces True chs else CHR ''_'' # replace_spaces True chs)
      else ch @ replace_spaces False chs)"

text \<open>The decimal digits of a row index, as the template literal of line 191 prints
  them.\<close>

fun show_nat :: "nat \<Rightarrow> string" where
  "show_nat n = (if n < 10 then [char_of (48 + n)] else show_nat (n div 10) @ [char_of (48 + n mod 10)])"

declare show_nat.simps [simp del]

text \<open>
  \<open>lookup_header\<close> is \<open>fieldMap[header]\<close> together with the test \<open>if (!mapped) continue\<close>.
  \<open>convert_cell\<close> is the body of the loop over the columns (lines 166-181),
  \<open>convert_row\<close> the body of the loop over the data rows (lines 161-194);
  \<open>entity.charAt(0)\<close> is the first character of the entity name.
\<close>

definition lookup_header :: "runtime \<Rightarrow> (string \<times> string) list lookup \<Rightarrow> string \<Rightarrow> string option" where
  "lookup_header rt fieldMap header =
     (case fieldMap of
        Own table \<Rightarrow>
          (case get_prop table header of
             Own mapped \<Rightarrow> if mapped \<noteq> [] then Some mapped else None
           | Inherited k \<Rightarrow> Some (builtin_text rt k)
           | Absent \<Rightarrow> None)
      | Inherited b \<Rightarrow> builtin_get rt b header
      | Absent \<Rightarrow> None)"

record row_state =
  rs_record :: import_record
  firstName :: string
  lastName :: string

definition convert_cell ::
  "runtime \<Rightarrow> (string \<times> string) list lookup \<Rightarrow> string list \<Rightarrow> row_state \<Rightarrow> nat \<times> string \<Rightarrow> row_state" where
  "convert_cell rt fieldMap row st jh =
     (case jh of (j, header) \<Rightarrow>
        (case lookup_header rt fieldMap header of
           None \<Rightarrow> st
         | Some mapped \<Rightarrow>
             let v = (if j < length row then row ! j else []) in
             if mapped = ''_first_name'' then st\<lparr>firstName := v\<rparr>
             else if mapped = ''_last_name'' then st\<lparr>lastName := v\<rparr>
             else if mapped \<in> set [''max_points'', ''points'', ''weight'', ''year_level'']
             then st\<lparr>rs_record := (rs_record st)(mapped \<mapsto>
                      (let n = js_Number rt v in
                       if n = NaN \<or> n = Fin 0 \<or> n = NegZero then Num (Fin 0) else Num n))\<rparr>
             else st\<lparr>rs_record := (rs_record st)(mapped \<mapsto> Str v)\<rparr>))"

definition convert_row ::
  "runtime \<Rightarrow> (string \<times> string) list lookup \<Rightarrow> string \<Rightarrow> string list \<Rightarrow> nat \<times> string list \<Rightarrow> import_record" where
  "convert_row rt fieldMap entity headers ir =
     (case ir of (i, row) \<Rightarrow>
        let st = foldl (convert_cell rt fieldMap row)
                   \<lparr>rs_record = Map.empty, firstName = [], lastName = []\<rparr>
                   (zip [0 ..< length headers] headers);
            r1 = (if \<not> truthy_value (rs_record st ''display_name'')
                     \<and> (firstName st \<noteq> [] \<or> lastName st \<noteq> [])
                  then (rs_record st)(''display_name'' \<mapsto> Str (trim (firstName st @ '' '' @ lastName st)))
                  else rs_record st);
            r2 = (if \<not> truthy_value (r1 ''id'')
                  then r1(''id'' \<mapsto>
                         Str (concat (take 1 (code_points entity)) @ ''-imported-'' @ show_nat i))
                  else r1)
        in r2)"

text \<open>
  Console output is kept as a list of events, each message by its content rather than
  its wording; a write of the output file is an event too. \<open>process.exit(n)\<close> ends the
  run with \<open>Exit n\<close>; an uncaught \<open>TypeError\<close> ends it as well (Node.js then exits
  with code 1); \<open>Completed\<close> is the normal end of the script, exit code 0.
\<close>

datatype message =
    Usage "string list"
  | FileNotFound string
  | Converting string string
  | Parsed nat nat
  | UnknownEntity string
  | Available "string list"
  | Converted nat
  | Written string

datatype event = Log message | Error message | WriteFile string "import_record list"

datatype exit_status = Completed | Exit nat | UncaughtTypeError

text \<open>\<open>convertCSV\<close> returns what it printed and either the converted records or the
  way it ended the process.\<close>

definition convertCSV ::
  "runtime \<Rightarrow> string list list \<Rightarrow> string \<Rightarrow> event list \<times> (exit_status + import_record list)" where
  "convertCSV rt rows entity =
     (let fieldMap = get_prop FIELD_MAPS entity in
      if fieldMap = Absent
      then ([Error (UnknownEntity entity), Error (Available (map fst FIELD_MAPS))], Inl (Exit 1))
      else
        (case rows of
           [] \<Rightarrow> ([], Inl UncaughtTypeError)
         | header # dataRows \<Rightarrow>
             let headers =
                   map (\<lambda>h. replace_spaces False (code_points (js_toLowerCase rt h))) header;
                 records = map (convert_row rt fieldMap entity headers)
                             (zip [1 ..< length rows] dataRows)
             in ([], Inr records)))"

subsection \<open>Command line (lines 202-240)\<close>

text \<open>
  \<open>main\<close> is the top-level code of the script. \<open>args\<close> is \<open>process.argv.slice(2)\<close>;
  \<open>files\<close> maps the paths of the existing files to their contents. The default output
  path is given relative to the repository root, and the write is taken to succeed.
\<close>

definition default_output :: "string \<Rightarrow> string" where
  "default_output entity = ''data/sample/'' @ entity @ ''.json''"

definition main :: "runtime \<Rightarrow> (string \<rightharpoonup> string) \<Rightarrow> string list \<Rightarrow> event list \<times> exit_status" where
  "main rt files args =
     (if length args < 2 then ([Log (Usage (map fst FIELD_MAPS))], Exit 0)
      else
        let inputFile = args ! 0;
            entity = args ! 1;
            outputFile = (if 2 < length args then args ! 2 else [])
        in
        (case files inputFile of
           None \<Rightarrow> ([Error (FileNotFound inputFile)], Exit 1)
         | Some csvText \<Rightarrow>
             let rows = parseCSV csvText in
             (case rows of
                [] \<Rightarrow> ([Log (Converting inputFile entity)], UncaughtTypeError)
              | header # _ \<Rightarrow>
                  (case convertCSV rt rows entity of
                     (errors, Inl status) \<Rightarrow>
                       ([Log (Converting inputFile entity),
                         Log (Parsed (length rows - 1) (length header))] @ errors, status)
                   | (errors, Inr records) \<Rightarrow>
                       let output = (if outputFile \<noteq> [] then outputFile else default_output entity)
                       in ([Log (Converting inputFile entity),
                            Log (Parsed (length rows - 1) (length header))] @ errors @
                           [Log (Converted (length records)),
                            WriteFile output records,
                            Log (Written output)], Completed)))))"

section \<open>Record store (js/storage.js)\<close>

text \<open>
  \<open>loadData\<close> (lines 17-37). \<open>JSON.parse\<close> and \<open>response.json()\<close> are the argument
  \<open>JSON_parse\<close>, \<open>None\<close> standing for a \<open>SyntaxError\<close>. The browser supplies the overlay
  \<open>localStorage\<close>, the path name of the page and the outcome of \<open>fetch\<close> for a URL: a
  network failure, or a response with its \<open>ok\<close> flag, status and body. The result gives
  how the returned promise settles, the warnings written to the console and the
  overlay afterwards. \<open>fetchStatic\<close> is the second half of the function, lines 28-36.
\<close>

datatype json =
    JNull | JBool bool | JNumber jsnum | JString string
  | JArray "json list" | JObject "(string \<times> json) list"

datatype response = NetworkFailure | Response bool nat string

record browser =
  localStorage :: "string \<rightharpoonup> string"
  pathname :: string
  fetch :: "string \<Rightarrow> response"

datatype 'a promise = Resolved 'a | Rejected string

datatype warning = FailedToLoad string nat

record load_result =
  settled :: "json promise"
  warned :: "warning list"
  storage :: "string \<rightharpoonup> string"

definition STORAGE_PREFIX :: string where
  "STORAGE_PREFIX = ''openschool_''"

definition DATA_BASE :: string where
  "DATA_BASE = ''data/sample/''"

fun str_includes :: "string \<Rightarrow> string \<Rightarrow> bool" where
  "str_includes [] sub = (sub = [])"
| "str_includes (c # cs) sub = (take (length sub) (c # cs) = sub \<or> str_includes cs sub)"

definition getBasePath :: "string \<Rightarrow> string" where
  "getBasePath path = (if str_includes path ''/pages/'' then ''../'' else [])"

definition fetchStatic :: "(string \<Rightarrow> json option) \<Rightarrow> browser \<Rightarrow> string \<Rightarrow> (string \<rightharpoonup> string) \<Rightarrow> load_result" where
  "fetchStatic JSON_parse br name store =
     (let basePath = getBasePath (pathname br) in
      case fetch br (basePath @ DATA_BASE @ name @ ''.json'') of
        NetworkFailure \<Rightarrow> \<lparr>settled = Rejected ''TypeError'', warned = [], storage = store\<rparr>
      | Response ok status body \<Rightarrow>
          if \<not> ok
          then \<lparr>settled = Resolved (JArray []), warned = [FailedToLoad name status], storage = store\<rparr>
          else (case JSON_parse body of
                  None \<Rightarrow> \<lparr>settled = Rejected ''SyntaxError'', warned = [], storage = store\<rparr>
                | Some data \<Rightarrow> \<lparr>settled = Resolved data, warned = [], storage = store\<rparr>))"

definition loadData :: "(string \<Rightarrow> json option) \<Rightarrow> browser \<Rightarrow> string \<Rightarrow> load_result" where
  "loadData JSON_parse br name =
     (case localStorage br (STORAGE_PREFIX @ name) of
        None \<Rightarrow> fetchStatic JSON_parse br name (localStorage br)
      | Some cached \<Rightarrow>
          if cached = [] then fetchStatic JSON_parse br name (localStorage br)
          else (case JSON_parse cached of
                  Some v \<Rightarrow> \<lparr>settled = Resolved v, warned = [], storage = localStorage br\<rparr>
                | None \<Rightarrow>
                    fetchStatic JSON_parse br name
                      ((localStorage br)(STORAGE_PREFIX @ name := None))))"

section \<open>The specification's formulas and the notions used to state the properties\<close>

text \<open>
  The grading formula in the specification's words, over grade entries
  \<open>(points, max_points, weight)\<close>: \<open>weighted_score\<close> is the sum of
  \<open>(points / max_points) * weight\<close>, \<open>total_weight\<close> the sum of the weights, and
  \<open>percentage\<close> is \<open>(weighted_score / total_weight) * 100\<close> when \<open>total_weight > 0\<close> and
  undefined otherwise. The numbers are doubles and a sum starts at 0 and adds the
  entries in their order. A defined percentage is shown with one decimal, an undefined
  one as the placeholder.
\<close>

definition spec_weighted_score :: "(jsnum \<times> jsnum \<times> jsnum) list \<Rightarrow> jsnum" where
  "spec_weighted_score ts =
     foldl js_add (Fin 0) (map (\<lambda>(p, m, w). js_mul (js_div p m) w) ts)"

definition spec_total_weight :: "(jsnum \<times> jsnum \<times> jsnum) list \<Rightarrow> jsnum" where
  "spec_total_weight ts = foldl js_add (Fin 0) (map (\<lambda>(p, m, w). w) ts)"

definition spec_percentage :: "(jsnum \<times> jsnum \<times> jsnum) list \<Rightarrow> jsnum option" where
  "spec_percentage ts =
     (if js_gt (spec_total_weight ts) 0
      then Some (js_mul (js_div (spec_weighted_score ts) (spec_total_weight ts)) (Fin 100))
      else None)"

definition shown_percentage :: "jsnum option \<Rightarrow> jsnum cell" where
  "shown_percentage pct = (case pct of None \<Rightarrow> Placeholder | Some x \<Rightarrow> Shown (toFixed1 x))"

text \<open>The letter shown beside a percentage is the letter of the number as printed, and
  the placeholder beside the placeholder.\<close>

definition shown_letter :: "jsnum option \<Rightarrow> string cell" where
  "shown_letter pct =
     (case pct of None \<Rightarrow> Placeholder
      | Some x \<Rightarrow> Shown (getLetterGrade (parseFloat (toFixed1 x))))"

text \<open>The entry of a grade record, with the record's own weight.\<close>

definition grade_entry :: "grade \<Rightarrow> jsnum \<times> jsnum \<times> jsnum" where
  "grade_entry g = (g_points g, g_max_points g, to_number (g_weight g))"

text \<open>
  A weight that is missing, \<open>null\<close>, zero or \<open>NaN\<close>. The weight the teacher's gradebook
  gives an entry: the grade's own weight unless that is missing or zero, else the
  assignment's weight unless that is missing or zero, else 0.25. The entries of one
  gradebook row: for each assignment of the list, in order, the first grade in the grade
  table that belongs to the student and the assignment, if there is one.
\<close>

definition missing_or_zero :: "jsval \<Rightarrow> bool" where
  "missing_or_zero w =
     (w = Undefined \<or> w = Null \<or> w = Number (Fin 0) \<or> w = Number NegZero \<or> w = Number NaN)"

definition spec_used_weight :: "jsval \<Rightarrow> jsval \<Rightarrow> jsnum" where
  "spec_used_weight gradeWeight assignmentWeight =
     (if \<not> missing_or_zero gradeWeight then to_number gradeWeight
      else if \<not> missing_or_zero assignmentWeight then to_number assignmentWeight
      else Fin (1 / 4))"

definition spec_gradebook_entries ::
  "grade list \<Rightarrow> string \<Rightarrow> assignment list \<Rightarrow> (jsnum \<times> jsnum \<times> jsnum) list" where
  "spec_gradebook_entries gradesData sid assignments =
     concat (map (\<lambda>a.
        case filter (\<lambda>g. g_student_id g = sid \<and> g_assignment_id g = a_id a) gradesData of
          [] \<Rightarrow> []
        | g # _ \<Rightarrow> [(g_points g, g_max_points g, spec_used_weight (g_weight g) (a_weight a))])
       assignments)"

text \<open>What is left of the input after an encoded field: nothing, or text that does not
  begin with a double quote.\<close>

definition ok_rest :: "string \<Rightarrow> bool" where
  "ok_rest rest = (case rest of [] \<Rightarrow> True | c # _ \<Rightarrow> c \<noteq> DQUOTE)"

text \<open>A line of fields that the parser returns as it stands: no field changes under
  \<open>trim\<close>, and some field is not empty.\<close>

definition good_line :: "string list \<Rightarrow> bool" where
  "good_line vs = ((\<forall>v \<in> set vs. trim v = v) \<and> (\<exists>v \<in> set vs. v \<noteq> []))"

section \<open>Sample data\<close>

definition sample_grades :: "grade list" where
  "sample_grades =
     [\<lparr>g_id = ''g1'', g_student_id = ''s1'', g_class_id = ''c1'', g_assignment_id = ''a1'',
        g_points = Fin 80, g_max_points = Fin 100, g_weight = Number (Fin (1 / 2))\<rparr>,
      \<lparr>g_id = ''g2'', g_student_id = ''s1'', g_class_id = ''c1'', g_assignment_id = ''a2'',
        g_points = Fin 60, g_max_points = Fin 100, g_weight = Number (Fin (1 / 2))\<rparr>]"

definition sample_assignments :: "assignment list" where
  "sample_assignments =
     [\<lparr>a_id = ''a1'', a_class_id = ''c1'', a_title = ''Quiz'', a_status = ''published'',
        a_weight = Number (Fin (1 / 4))\<rparr>,
      \<lparr>a_id = ''a2'', a_class_id = ''c1'', a_title = ''Essay'', a_status = ''published'',
        a_weight = Number (Fin 0)\<rparr>]"

definition sample_classes :: "class_section list" where
  "sample_classes =
     [\<lparr>c_id = ''c1'', c_name = ''Algebra''\<rparr>, \<lparr>c_id = ''c2'', c_name = ''History''\<rparr>]"

definition zero_weight_grade :: grade where
  "zero_weight_grade =
     \<lparr>g_id = ''g3'', g_student_id = ''s2'', g_class_id = ''c1'', g_assignment_id = ''a2'',
        g_points = Fin 80, g_max_points = Fin 100, g_weight = Number (Fin 0)\<rparr>"

definition rounding_grade :: grade where
  "rounding_grade =
     \<lparr>g_id = ''g6'', g_student_id = ''s4'', g_class_id = ''c1'', g_assignment_id = ''a1'',
        g_points = Fin 1259, g_max_points = Fin 2000, g_weight = Number (Fin 1)\<rparr>"

definition full_marks_grades :: "grade list" where
  "full_marks_grades =
     [\<lparr>g_id = ''g4'', g_student_id = ''s3'', g_class_id = ''c1'', g_assignment_id = ''a1'',
        g_points = Fin 100, g_max_points = Fin 100, g_weight = Number (Fin (1 / 2))\<rparr>,
      \<lparr>g_id = ''g5'', g_student_id = ''s3'', g_class_id = ''c1'', g_assignment_id = ''a2'',
        g_points = Fin 50, g_max_points = Fin 50, g_weight = Number (Fin 0)\<rparr>]"

definition sample_users :: "user list" where
  "sample_users =
     [\<lparr>u_id = ''s1'', u_display_name = ''Ada'', u_role = ''student''\<rparr>,
      \<lparr>u_id = ''s2'', u_display_name = ''Ben'', u_role = ''student''\<rparr>]"

definition sample_enrollments :: "enrollment list" where
  "sample_enrollments =
     [\<lparr>e_id = ''e1'', e_student_id = ''s1'', e_class_id = ''c1'', e_status = ''active''\<rparr>,
      \<lparr>e_id = ''e2'', e_student_id = ''s2'', e_class_id = ''c1'', e_status = ''withdrawn''\<rparr>,
      \<lparr>e_id = ''e3'', e_student_id = ''s1'', e_class_id = ''c2'', e_status = ''active''\<rparr>]"

definition reenrolled :: "enrollment list" where
  "reenrolled =
     [\<lparr>e_id = ''e4'', e_student_id = ''s2'', e_class_id = ''c1'', e_status = ''withdrawn''\<rparr>,
      \<lparr>e_id = ''e5'', e_student_id = ''s2'', e_class_id = ''c1'', e_status = ''active''\<rparr>]"

definition sample_ids :: "nat \<Rightarrow> string" where
  "sample_ids n = ''att-new-'' @ replicate n (CHR ''i'')"

definition sample_attendance :: "attendance list" where
  "sample_attendance =
     [\<lparr>att_id = ''att-001'', att_class_id = ''c1'', att_student_id = ''s1'',
        att_date = ''2024-03-01'', att_status = ''absent'', att_recorded_by = Some ''t1'',
        att_recorded_at = Some ''2024-03-01T09:00:00.000Z'', att_note = Some ''Sick''\<rparr>]"

definition sample_rows :: "row_object list" where
  "sample_rows =
     [[(''id'', Some ''a1''), (''title'', Some ''Say \"Hi\", please''), (''note'', None)],
      [(''id'', Some ''a2''), (''title'', Some (''two'' @ [LF] @ ''lines''))]]"

definition padded_rows :: "row_object list" where
  "padded_rows = [[(''title'', Some '' Essay'')]]"

text \<open>
  The text that \<open>String\<close> gives in Node.js for the value a plain object inherits under
  each of the names of \<open>object_prototype_keys\<close>: \<open>constructor\<close> is the function
  \<open>Object\<close>, \<open>__proto__\<close> is \<open>Object.prototype\<close> itself, and every other name is a
  built-in function of that name.
\<close>

definition node_text :: "string \<Rightarrow> string" where
  "node_text k =
     (if k = ''constructor'' then ''function Object() { [native code] }''
      else if k = ''__proto__'' then ''[object Object]''
      else ''function '' @ k @ ''() { [native code] }'')"

text \<open>
  The runtime of the examples. It gives the answers of Node.js on the arguments that
  the examples reach, and is used on no others: \<open>Number\<close> on the string \<open>85\<close>,
  \<open>toLowerCase\<close> on strings of ASCII characters, the text of an inherited built-in, and
  the reads of the headers \<open>id\<close> (absent from every inherited built-in) and \<open>name\<close>
  (the name of an inherited function; \<open>Object.prototype\<close> has no such property).
\<close>

definition ascii_lower :: "string \<Rightarrow> string" where
  "ascii_lower s =
     map (\<lambda>c. if 65 \<le> (of_char c :: nat) \<and> (of_char c :: nat) \<le> 90
               then char_of (of_char c + 32 :: nat) else c) s"

definition sample_runtime :: runtime where
  "sample_runtime =
     \<lparr>js_Number = (\<lambda>s. if s = ''85'' then Fin 85 else NaN),
      js_toLowerCase = ascii_lower,
      builtin_text = node_text,
      builtin_get = (\<lambda>b h. if h = ''name'' \<and> b \<noteq> ''__proto__''
                             then Some (if b = ''constructor'' then ''Object'' else b)
                             else None)\<rparr>"

definition sample_parse :: "string \<Rightarrow> json option" where
  "sample_parse text = (if text = ''[]'' then Some (JArray []) else None)"

definition sample_browser :: browser where
  "sample_browser =
     \<lparr>localStorage = Map.empty, pathname = ''/pages/gradebook.html'',
      fetch = (\<lambda>url. if url = ''../data/sample/users.json''
                       then Response True 200 ''<!DOCTYPE html>'' else Response False 404 [])\<rparr>"

section \<open>Rounding to a double\<close>

text \<open>\<open>exponent a\<close> is the binary exponent of a positive number: the integer \<open>e\<close> with
  \<open>2^e \<le> a < 2^(e+1)\<close>.\<close>

lemma bitlen_eqI:
  assumes "2 ^ k \<le> m" and "m < 2 ^ Suc k"
  shows "bitlen m = int k + 1"
proof -
  have "bitlen m \<le> int (Suc k) \<longleftrightarrow> 0 \<le> int (Suc k) \<and> m < 2 ^ nat (int (Suc k))"
    by (rule bitlen_le_iff_power)
  with assms(2) have le: "bitlen m \<le> int (Suc k)"
    unfolding nat_int by linarith
  have "int (Suc k) \<le> bitlen m \<longleftrightarrow> int (Suc k) \<le> 0 \<or> 2 ^ (nat (int (Suc k)) - 1) \<le> m"
    by (rule bitlen_ge_iff_power)
  with assms(1) have "int (Suc k) \<le> bitlen m"
    unfolding nat_int by simp
  with le show ?thesis by simp
qed

lemma exponent_nonneg:
  assumes "2 ^ k \<le> a" and "a < 2 ^ Suc k"
  shows "exponent a = int k"
proof -
  have "(1::real) \<le> 2 ^ k" by simp
  with assms(1) have a1: "1 \<le> a" by linarith
  have "(2::int) ^ k \<le> \<lfloor>a\<rfloor>"
    using assms(1) by (simp add: le_floor_iff)
  moreover have "\<lfloor>a\<rfloor> < 2 ^ Suc k"
    using assms(2) by (simp add: floor_less_iff)
  ultimately have "bitlen \<lfloor>a\<rfloor> = int k + 1" by (rule bitlen_eqI)
  with a1 show ?thesis by (simp add: exponent_def)
qed

lemma exponent_neg:
  assumes "1 / 2 ^ Suc k \<le> a" and "a < 1 / 2 ^ k"
  shows "exponent a = - int (Suc k)"
proof -
  have "(0::real) < 1 / 2 ^ Suc k" by simp
  with assms(1) have pos: "0 < a" by linarith
  have "1 / 2 ^ k \<le> (1::real)" by simp
  with assms(2) have a1: "\<not> 1 \<le> a" by linarith
  have up: "1 / a \<le> 2 ^ Suc k"
    using assms(1) pos by (simp add: field_simps)
  have lo: "2 ^ k < 1 / a"
    using assms(2) pos by (simp add: field_simps)
  have "(2::int) ^ k < \<lceil>1 / a\<rceil>"
    using lo by (simp add: less_ceiling_iff)
  then have 1: "(2::int) ^ k \<le> \<lceil>1 / a\<rceil> - 1" by simp
  have "\<lceil>1 / a\<rceil> \<le> 2 ^ Suc k"
    using up by (simp add: ceiling_le_iff)
  then have 2: "\<lceil>1 / a\<rceil> - 1 < 2 ^ Suc k" by simp
  from 1 2 have "bitlen (\<lceil>1 / a\<rceil> - 1) = int k + 1" by (rule bitlen_eqI)
  with a1 show ?thesis by (simp add: exponent_def)
qed

lemma exponent_eqI:
  assumes "pow2 e \<le> a" and "a < pow2 (e + 1)"
  shows "exponent a = e"
proof (cases "0 \<le> e")
  case True
  then have "pow2 e = 2 ^ nat e" and "pow2 (e + 1) = 2 ^ Suc (nat e)"
    by (simp_all add: pow2_def nat_add_distrib)
  with assms have "exponent a = int (nat e)" by (simp add: exponent_nonneg)
  with True show ?thesis by simp
next
  case False
  define k where "k = nat (- e - 1)"
  from False have e: "e = - int (Suc k)" by (simp add: k_def)
  have n1: "nat (- e) = Suc k" and n2: "nat (- (e + 1)) = k" using False by (simp_all add: k_def)
  from False n1 have "pow2 e = 1 / 2 ^ Suc k" unfolding pow2_def by simp
  moreover have "pow2 (e + 1) = 1 / 2 ^ k"
  proof (cases "0 \<le> e + 1")
    case True
    with False have "e + 1 = 0" by simp
    with n2 show ?thesis unfolding pow2_def by simp
  next
    case False
    with n2 show ?thesis unfolding pow2_def by simp
  qed
  ultimately have "exponent a = - int (Suc k)" using assms by (simp add: exponent_neg)
  with e show ?thesis by simp
qed

text \<open>The double nearest to a positive number whose binary exponent is known.\<close>

lemma round64_at:
  assumes "0 < x" and "pow2 e \<le> x" and "x < pow2 (e + 1)"
  shows "round64 x =
     (if pow2 1024 \<le> of_int (round_even (x / pow2 (max e (- 1022) - 52))) * pow2 (max e (- 1022) - 52)
      then PInf
      else if round_even (x / pow2 (max e (- 1022) - 52)) = 0 then Fin 0
      else Fin (of_int (round_even (x / pow2 (max e (- 1022) - 52))) * pow2 (max e (- 1022) - 52)))"
  using exponent_eqI [OF assms(2,3)] assms(1) by (auto simp: round64_def Let_def pow2_def)

section \<open>Letter grades\<close>

text \<open>
  Claim C2. The letter-grade function is total on every real percentage and is the
  step function of the table: each band is closed below, the bands are tried from the
  top and the first that holds decides. So every \<open>p \<ge> 97\<close> (and every \<open>p > 100\<close>) yields
  A+, 93 yields A, 92.999 yields A-, and every \<open>p < 60\<close> (and every negative \<open>p\<close>)
  yields F.
\<close>

theorem getLetterGrade_bands:
  "(\<forall>p::real. getLetterGrade (Fin p) =
      (if 97 \<le> p then ''A+'' else if 93 \<le> p then ''A'' else if 90 \<le> p then ''A-''
       else if 87 \<le> p then ''B+'' else if 83 \<le> p then ''B'' else if 80 \<le> p then ''B-''
       else if 77 \<le> p then ''C+'' else if 73 \<le> p then ''C'' else if 70 \<le> p then ''C-''
       else if 67 \<le> p then ''D+'' else if 63 \<le> p then ''D'' else if 60 \<le> p then ''D-''
       else ''F''))
   \<and> (\<forall>p::real. 97 \<le> p \<longrightarrow> getLetterGrade (Fin p) = ''A+'')
   \<and> getLetterGrade (Fin 93) = ''A''
   \<and> getLetterGrade (Fin (92999 / 1000)) = ''A-''
   \<and> (\<forall>p::real. p < 60 \<longrightarrow> getLetterGrade (Fin p) = ''F'')
   \<and> (\<forall>p::real. p < 0 \<longrightarrow> getLetterGrade (Fin p) = ''F'')
   \<and> (\<forall>p::real. 100 < p \<longrightarrow> getLetterGrade (Fin p) = ''A+'')"
  by (simp add: getLetterGrade_def)

theorem getLetterGrade_bands_witness:
  "(97::real) \<le> 97 \<and> getLetterGrade (Fin 97) = ''A+''
   \<and> (59::real) < 60 \<and> getLetterGrade (Fin 59) = ''F''
   \<and> (-5::real) < 0 \<and> getLetterGrade (Fin (-5)) = ''F''
   \<and> (100::real) < 120 \<and> getLetterGrade (Fin 120) = ''A+''
   \<and> getLetterGrade (Fin 85) = ''B'' \<and> getLetterGrade (Fin 95) = ''A''
   \<and> getLetterGrade (Fin 60) = ''D-'' \<and> getLetterGrade (Fin (5999 / 100)) = ''F''"
  using getLetterGrade_bands by simp

text \<open>The values that are not real numbers: the infinities, \<open>NaN\<close> and \<open>-0\<close>.\<close>

lemma getLetterGrade_special:
  "getLetterGrade PInf = ''A+'' \<and> getLetterGrade NInf = ''F''
   \<and> getLetterGrade NaN = ''F'' \<and> getLetterGrade NegZero = ''F''"
  by (simp add: getLetterGrade_def)


section \<open>Class rosters\<close>

lemma getClassStudents_spec:
  "getClassStudents usersData enrollmentsData classId =
      filter (\<lambda>u. \<exists>e \<in> set enrollmentsData.
                e_student_id e = u_id u \<and> e_class_id e = classId \<and> e_status e = ''active'')
        usersData"
  unfolding getClassStudents_def Let_def
  by (rule filter_cong) (auto simp: image_iff)

text \<open>
  Claim C5, as amended. The roster of a class is the list of the users, in the order of
  the user table, for whom some enrollment in that class has status \<open>active\<close>; so a
  student all of whose enrollments in the class are withdrawn is not on the roster.
\<close>

theorem getClassStudents_active_roster:
  "getClassStudents usersData enrollmentsData classId =
      filter (\<lambda>u. \<exists>e \<in> set enrollmentsData.
                e_student_id e = u_id u \<and> e_class_id e = classId \<and> e_status e = ''active'')
        usersData
   \<and> ((\<forall>e \<in> set enrollmentsData.
          e_student_id e = sid \<and> e_class_id e = classId \<longrightarrow> e_status e = ''withdrawn'')
        \<longrightarrow> sid \<notin> u_id ` set (getClassStudents usersData enrollmentsData classId))"
  unfolding getClassStudents_spec by auto

theorem getClassStudents_active_roster_witness:
  "e_status (sample_enrollments ! 1) = ''withdrawn''
   \<and> e_student_id (sample_enrollments ! 1) = ''s2''
   \<and> e_class_id (sample_enrollments ! 1) = ''c1''
   \<and> ''s2'' \<notin> u_id ` set (getClassStudents sample_users sample_enrollments ''c1'')
   \<and> getClassStudents sample_users sample_enrollments ''c1'' = [sample_users ! 0]"
proof -
  have h: "\<forall>e \<in> set sample_enrollments.
          e_student_id e = ''s2'' \<and> e_class_id e = ''c1'' \<longrightarrow> e_status e = ''withdrawn''"
    by (simp add: sample_enrollments_def)
  from getClassStudents_active_roster [of sample_users sample_enrollments "''c1''" "''s2''"] h
  have "''s2'' \<notin> u_id ` set (getClassStudents sample_users sample_enrollments ''c1'')"
    and "getClassStudents sample_users sample_enrollments ''c1'' =
      filter (\<lambda>u. \<exists>e \<in> set sample_enrollments.
                e_student_id e = u_id u \<and> e_class_id e = ''c1'' \<and> e_status e = ''active'')
        sample_users"
    by blast+
  moreover have "filter (\<lambda>u. \<exists>e \<in> set sample_enrollments.
                e_student_id e = u_id u \<and> e_class_id e = ''c1'' \<and> e_status e = ''active'')
        sample_users
       = [sample_users ! 0]"
    by (simp add: sample_enrollments_def sample_users_def)
  ultimately show ?thesis by (simp add: sample_enrollments_def)
qed

text \<open>
  Claim C5 as first stated fails: a student with a withdrawn enrollment in the class
  is on its roster when another enrollment of the same student in that class is
  active.
\<close>

theorem getClassStudents_counterexample:
  "e_student_id (reenrolled ! 0) = ''s2'' \<and> e_class_id (reenrolled ! 0) = ''c1''
   \<and> e_status (reenrolled ! 0) = ''withdrawn''
   \<and> ''s2'' \<in> u_id ` set (getClassStudents sample_users reenrolled ''c1'')"
  by (simp add: reenrolled_def sample_users_def getClassStudents_def)

section \<open>Weighted averages\<close>

text \<open>Each pass of either loop adds \<open>(points / max_points) * weight\<close> to the first
  total and the weight to the second, so the totals are the two sums of the
  specification over the entries in their order.\<close>

lemma student_fold:
  "foldl studentStep (s, w) gs =
     (foldl js_add s (map (\<lambda>(p, m, w). js_mul (js_div p m) w) (map grade_entry gs)),
      foldl js_add w (map (\<lambda>(p, m, w). w) (map grade_entry gs)))"
  by (induction gs arbitrary: s w) (simp_all add: studentStep_def grade_entry_def)

lemma weightedAvgText_spec:
  "weightedAvgText (spec_weighted_score ts, spec_total_weight ts) =
     shown_percentage (spec_percentage ts)"
  by (simp add: weightedAvgText_def shown_percentage_def spec_percentage_def)

lemma studentClassAverage_spec:
  "studentClassAverage classGrades =
     shown_percentage (spec_percentage (map grade_entry classGrades))"
  unfolding studentClassAverage_def student_fold
  using weightedAvgText_spec [of "map grade_entry classGrades"]
  by (simp add: spec_weighted_score_def spec_total_weight_def)

text \<open>\<open>find\<close> returns the first element of the filtered list, and the weight chosen by
  \<open>||\<close> is the one described in words.\<close>

lemma find_filter:
  "find P xs = (case filter P xs of [] \<Rightarrow> None | x # _ \<Rightarrow> Some x)"
  by (induction xs) simp_all

lemma truthy_iff: "truthy w = (\<not> missing_or_zero w)"
  by (induction w rule: truthy.induct) (simp_all add: missing_or_zero_def)

lemma effectiveWeight_spec:
  "effectiveWeight g a = spec_used_weight (g_weight g) (a_weight a)"
  by (simp add: effectiveWeight_def js_or_def truthy_iff spec_used_weight_def)

lemma gradebook_fold:
  "foldl (gradebookStep gradesData sid) (s, w) as =
     (foldl js_add s (map (\<lambda>(p, m, w). js_mul (js_div p m) w)
         (spec_gradebook_entries gradesData sid as)),
      foldl js_add w (map (\<lambda>(p, m, w). w) (spec_gradebook_entries gradesData sid as)))"
proof (induction as arbitrary: s w)
  case Nil
  then show ?case by (simp add: spec_gradebook_entries_def)
next
  case (Cons a as)
  have split: "spec_gradebook_entries gradesData sid (a # as) =
      spec_gradebook_entries gradesData sid [a] @ spec_gradebook_entries gradesData sid as"
    by (simp add: spec_gradebook_entries_def)
  show ?case
  proof (cases "filter (\<lambda>g. g_student_id g = sid \<and> g_assignment_id g = a_id a) gradesData")
    case Nil
    then have "gradebookStep gradesData sid (s, w) a = (s, w)"
      and "spec_gradebook_entries gradesData sid [a] = []"
      by (simp_all add: gradebookStep_def find_filter spec_gradebook_entries_def)
    with Cons.IH [of s w] split show ?thesis by simp
  next
    case (Cons g rest)
    then have "gradebookStep gradesData sid (s, w) a =
        (js_add s (js_mul (js_div (g_points g) (g_max_points g))
                     (spec_used_weight (g_weight g) (a_weight a))),
         js_add w (spec_used_weight (g_weight g) (a_weight a)))"
      and "spec_gradebook_entries gradesData sid [a] =
        [(g_points g, g_max_points g, spec_used_weight (g_weight g) (a_weight a))]"
      by (simp_all add: gradebookStep_def find_filter spec_gradebook_entries_def
            effectiveWeight_spec)
    with Cons.IH split show ?thesis by simp
  qed
qed

lemma gradebookRow_spec:
  "fst (gradebookRow gradesData as sid) =
     shown_percentage (spec_percentage (spec_gradebook_entries gradesData sid as))"
  using weightedAvgText_spec [of "spec_gradebook_entries gradesData sid as"]
  by (simp add: gradebookRow_def Let_def gradebookTotals_def gradebook_fold
        spec_weighted_score_def spec_total_weight_def)

lemma gradebookRow_letter:
  "snd (gradebookRow gradesData as sid) =
     shown_letter (spec_percentage (spec_gradebook_entries gradesData sid as))"
proof -
  let ?es = "spec_gradebook_entries gradesData sid as"
  have totals: "gradebookTotals gradesData sid as = (spec_weighted_score ?es, spec_total_weight ?es)"
    by (simp add: gradebookTotals_def gradebook_fold spec_weighted_score_def
          spec_total_weight_def)
  show ?thesis
    unfolding gradebookRow_def Let_def totals
    by (simp add: weightedAvgText_def shown_letter_def spec_percentage_def)
qed

text \<open>The teacher's page: one row for each student of the roster.\<close>

lemma renderClassGradebook_spec:
  "renderClassGradebook True usersData enrollmentsData assignmentsData gradesData classId =
     (let roster = filter (\<lambda>u. \<exists>e \<in> set enrollmentsData.
                      e_student_id e = u_id u \<and> e_class_id e = classId \<and> e_status e = ''active'')
                    usersData;
          counted = filter (\<lambda>a. a_class_id a = classId \<and> a_status a \<noteq> ''draft'') assignmentsData
      in if classId = [] then SelectClassMessage
         else if roster = [] then NoStudentsMessage
         else GradebookTable
                (map (\<lambda>s. (u_id s,
                        shown_percentage (spec_percentage
                          (spec_gradebook_entries gradesData (u_id s) counted)),
                        shown_letter (spec_percentage
                          (spec_gradebook_entries gradesData (u_id s) counted))))
                   roster))"
proof -
  have row: "gradebookRow gradesData as sid =
      (shown_percentage (spec_percentage (spec_gradebook_entries gradesData sid as)),
       shown_letter (spec_percentage (spec_gradebook_entries gradesData sid as)))" for as sid
    using gradebookRow_spec [of gradesData as sid] gradebookRow_letter [of gradesData as sid]
    by (simp add: prod_eq_iff)
  show ?thesis
    unfolding renderClassGradebook_def Let_def getClassStudents_spec classAssignments_def row
    by simp
qed

text \<open>The student's page: a class of the student gets a table when it is in the class
  table and the student has a grade in it.\<close>

lemma concat_map_if:
  "concat (map (\<lambda>x. if P x then [f x] else []) xs) = map f (filter P xs)"
  by (induction xs) simp_all

lemma find_Some_ex: "(\<exists>x. find P xs = Some x) = (\<exists>x \<in> set xs. P x)"
  by (induction xs) auto

lemma studentClassTable_spec:
  "studentClassTable classesData (filter (\<lambda>g. g_student_id g = userId) gradesData) cid =
     (if cid \<in> c_id ` set classesData
         \<and> (\<exists>g \<in> set gradesData. g_student_id g = userId \<and> g_class_id g = cid)
      then [(cid, shown_percentage (spec_percentage (map grade_entry
              (filter (\<lambda>g. g_student_id g = userId \<and> g_class_id g = cid) gradesData))))]
      else [])"
proof -
  have grades: "(filter (\<lambda>g. g_student_id g = userId \<and> g_class_id g = cid) gradesData = [])
      = (\<not> (\<exists>g \<in> set gradesData. g_student_id g = userId \<and> g_class_id g = cid))"
    by (auto simp: filter_empty_conv)
  show ?thesis
  proof (cases "find (\<lambda>c. c_id c = cid) classesData")
    case None
    then have "cid \<notin> c_id ` set classesData" by (auto simp: find_None_iff)
    with None show ?thesis by (simp add: studentClassTable_def)
  next
    case (Some cls)
    then have "\<exists>x. find (\<lambda>c. c_id c = cid) classesData = Some x" by blast
    then have "cid \<in> c_id ` set classesData" unfolding find_Some_ex by force
    with Some grades show ?thesis
      by (simp add: studentClassTable_def Let_def studentClassAverage_spec)
  qed
qed

lemma renderStudentGrades_spec:
  "renderStudentGrades True classesData enrollmentsData gradesData userId =
     (if filter (\<lambda>g. g_student_id g = userId) gradesData = [] then NoGradesMessage
      else ClassTables
        (map (\<lambda>cid. (cid, shown_percentage (spec_percentage (map grade_entry
                 (filter (\<lambda>g. g_student_id g = userId \<and> g_class_id g = cid) gradesData)))))
           (filter (\<lambda>cid. cid \<in> c_id ` set classesData
                       \<and> (\<exists>g \<in> set gradesData. g_student_id g = userId \<and> g_class_id g = cid))
              (map e_class_id
                 (filter (\<lambda>e. e_student_id e = userId \<and> e_status e = ''active'')
                    enrollmentsData)))))"
  unfolding renderStudentGrades_def Let_def studentClassTable_spec concat_map_if
  by simp

text \<open>The arithmetic of the examples: the operations at the binary exponents that
  occur.\<close>

lemma spec_percentage_example:
  "spec_percentage [(Fin 80, Fin 100, Fin (1 / 2)), (Fin 60, Fin 100, Fin (1 / 2))] = Some (Fin 70)"
  by (simp add: spec_percentage_def spec_weighted_score_def spec_total_weight_def
        js_add_def js_mul_def js_div_def is_inf_def is_zero_def
        round64_at [where e = "-2"] round64_at [where e = "-1"] round64_at [where e = 0]
        round64_at [where e = 6] pow2_def round_even_def)

lemma spec_percentage_quarter:
  "spec_percentage [(Fin 80, Fin 100, Fin (1 / 4))] = Some (Fin 80)"
  by (simp add: spec_percentage_def spec_weighted_score_def spec_total_weight_def
        js_add_def js_mul_def js_div_def is_inf_def is_zero_def
        round64_at [where e = "-3"] round64_at [where e = "-2"] round64_at [where e = "-1"]
        round64_at [where e = 6] pow2_def round_even_def)

lemma spec_percentage_full_marks:
  "spec_percentage [(Fin 100, Fin 100, Fin (1 / 2)), (Fin 50, Fin 50, Fin (1 / 4))] = Some (Fin 100)"
  "spec_percentage [(Fin 100, Fin 100, Fin (1 / 2))] = Some (Fin 100)"
  by (simp_all add: spec_percentage_def spec_weighted_score_def spec_total_weight_def
        js_add_def js_mul_def js_div_def is_inf_def is_zero_def
        round64_at [where e = "-2"] round64_at [where e = "-1"] round64_at [where e = 0]
        round64_at [where e = 6] pow2_def round_even_def)

lemma spec_percentage_rounds:
  "spec_percentage [(Fin 1259, Fin 2000, Fin 1)]
     = Some (Fin (8859424891967897 / 140737488355328))"
  by (simp add: spec_percentage_def spec_weighted_score_def spec_total_weight_def
        js_add_def js_mul_def js_div_def is_inf_def is_zero_def
        round64_at [where e = "-1"] round64_at [where e = 0] round64_at [where e = 5]
        pow2_def round_even_def)

lemma round64_rounds:
  "round64 (629 / 10) = Fin (8852388017550131 / 140737488355328)"
  by (simp add: round64_at [where e = 5] pow2_def round_even_def)

text \<open>
  Claim C1, as amended. The numbers being doubles and the sums being taken over the
  entries in their order: the student's view shows for the grades of one class, and the
  teacher's gradebook for the grades it finds for the class's assignments, the
  percentage \<open>(\<Sum> points / max_points * weight) / (\<Sum> weight) * 100\<close> printed with one
  decimal when the computed sum of the weights is greater than 0, and the placeholder
  otherwise. In the student's view the weight of an entry is the grade's own; the page
  is a message when the student has no grade at all, and otherwise it has one table,
  with this average, for each active enrollment of the student in a class that is in
  the class table and in which the student has a grade, so a class without grades gets
  no table and no average; without its container element nothing is shown. In the
  gradebook the entries of a student are, for each assignment of the class that is not
  a draft, the first grade of the student for it, and the weight of an entry is the
  grade's own unless that is missing or zero, else the assignment's unless that is
  missing or zero, else 0.25; the page has one row for each student of the class's
  roster, so a student of the roster without grades gets the placeholder, and it is a
  message when no class is chosen or the roster is empty. The entries 80/100 and 60/100
  of weight 0.5 each give 70.0 in both views.
\<close>

theorem weighted_average_formula:
  "studentClassAverage classGrades =
      shown_percentage (spec_percentage (map grade_entry classGrades))
   \<and> fst (gradebookRow gradesData assignments sid) =
      shown_percentage (spec_percentage (spec_gradebook_entries gradesData sid assignments))
   \<and> renderStudentGrades True classesData enrollmentsData gradesData userId =
      (if filter (\<lambda>g. g_student_id g = userId) gradesData = [] then NoGradesMessage
       else ClassTables
         (map (\<lambda>cid. (cid, shown_percentage (spec_percentage (map grade_entry
                  (filter (\<lambda>g. g_student_id g = userId \<and> g_class_id g = cid) gradesData)))))
            (filter (\<lambda>cid. cid \<in> c_id ` set classesData
                        \<and> (\<exists>g \<in> set gradesData. g_student_id g = userId \<and> g_class_id g = cid))
               (map e_class_id
                  (filter (\<lambda>e. e_student_id e = userId \<and> e_status e = ''active'')
                     enrollmentsData)))))
   \<and> renderStudentGrades False classesData enrollmentsData gradesData userId = NoPage
   \<and> renderClassGradebook True usersData enrollmentsData assignmentsData gradesData classId =
      (let roster = filter (\<lambda>u. \<exists>e \<in> set enrollmentsData.
                       e_student_id e = u_id u \<and> e_class_id e = classId \<and> e_status e = ''active'')
                     usersData;
           counted = filter (\<lambda>a. a_class_id a = classId \<and> a_status a \<noteq> ''draft'') assignmentsData
       in if classId = [] then SelectClassMessage
          else if roster = [] then NoStudentsMessage
          else GradebookTable
                 (map (\<lambda>s. (u_id s,
                         shown_percentage (spec_percentage
                           (spec_gradebook_entries gradesData (u_id s) counted)),
                         shown_letter (spec_percentage
                           (spec_gradebook_entries gradesData (u_id s) counted))))
                    roster))
   \<and> renderClassGradebook False usersData enrollmentsData assignmentsData gradesData classId
        = NoGradebook"
proof (intro conjI)
  show "studentClassAverage classGrades =
      shown_percentage (spec_percentage (map grade_entry classGrades))"
    by (rule studentClassAverage_spec)
  show "fst (gradebookRow gradesData assignments sid) =
      shown_percentage (spec_percentage (spec_gradebook_entries gradesData sid assignments))"
    by (rule gradebookRow_spec)
  show "renderStudentGrades False classesData enrollmentsData gradesData userId = NoPage"
    by (simp add: renderStudentGrades_def)
  show "renderClassGradebook False usersData enrollmentsData assignmentsData gradesData classId
        = NoGradebook"
    by (simp add: renderClassGradebook_def)
qed (rule renderStudentGrades_spec renderClassGradebook_spec)+

theorem weighted_average_formula_witness:
  "studentClassAverage sample_grades = Shown (Fin 70)
   \<and> fst (gradebookRow sample_grades sample_assignments ''s1'') = Shown (Fin 70)
   \<and> fst (gradebookRow sample_grades sample_assignments ''s9'') = Placeholder
   \<and> renderStudentGrades True sample_classes sample_enrollments sample_grades ''s1''
        = ClassTables [(''c1'', Shown (Fin 70))]
   \<and> renderStudentGrades True sample_classes sample_enrollments sample_grades ''s2''
        = NoGradesMessage
   \<and> renderClassGradebook True sample_users sample_enrollments sample_assignments sample_grades
        ''c1'' = GradebookTable [(''s1'', Shown (Fin 70), Shown ''C-'')]
   \<and> studentClassAverage [rounding_grade] = Shown (Fin (629 / 10))
   \<and> gradebookRow [rounding_grade] sample_assignments ''s4''
        = (Shown (Fin (629 / 10)), Shown ''D-'')"
proof -
  note inst = weighted_average_formula [where classGrades = sample_grades
      and gradesData = sample_grades and assignments = sample_assignments and sid = "''s1''"
      and classesData = sample_classes and enrollmentsData = sample_enrollments
      and userId = "''s1''" and usersData = sample_users
      and assignmentsData = sample_assignments and classId = "''c1''"]
  note inst9 = weighted_average_formula [where classGrades = sample_grades
      and gradesData = sample_grades and assignments = sample_assignments and sid = "''s9''"
      and classesData = sample_classes and enrollmentsData = sample_enrollments
      and userId = "''s2''"]
  note inst4 = weighted_average_formula [where classGrades = "[rounding_grade]"
      and gradesData = "[rounding_grade]" and assignments = sample_assignments
      and sid = "''s4''"]
  have entries: "map grade_entry sample_grades =
      [(Fin 80, Fin 100, Fin (1 / 2)), (Fin 60, Fin 100, Fin (1 / 2))]"
    by (simp add: sample_grades_def grade_entry_def)
  have gentries: "spec_gradebook_entries sample_grades ''s1'' sample_assignments =
      [(Fin 80, Fin 100, Fin (1 / 2)), (Fin 60, Fin 100, Fin (1 / 2))]"
    by (simp add: sample_grades_def sample_assignments_def spec_gradebook_entries_def
          spec_used_weight_def missing_or_zero_def)
  have g9: "spec_gradebook_entries sample_grades ''s9'' sample_assignments = []"
    by (simp add: sample_grades_def sample_assignments_def spec_gradebook_entries_def)
  have none: "spec_percentage [] = None"
    by (simp add: spec_percentage_def spec_total_weight_def)
  have classes: "filter (\<lambda>cid. cid \<in> c_id ` set sample_classes
                        \<and> (\<exists>g \<in> set sample_grades. g_student_id g = ''s1'' \<and> g_class_id g = cid))
               (map e_class_id
                  (filter (\<lambda>e. e_student_id e = ''s1'' \<and> e_status e = ''active'')
                     sample_enrollments)) = [''c1'']"
    by (simp add: sample_classes_def sample_enrollments_def sample_grades_def)
  have mine: "filter (\<lambda>g. g_student_id g = ''s1'' \<and> g_class_id g = ''c1'') sample_grades
      = sample_grades"
    "filter (\<lambda>g. g_student_id g = ''s1'') sample_grades = sample_grades"
    "filter (\<lambda>g. g_student_id g = ''s2'') sample_grades = []"
    "sample_grades \<noteq> []"
    by (simp_all add: sample_grades_def)
  have roster: "filter (\<lambda>u. \<exists>e \<in> set sample_enrollments.
                       e_student_id e = u_id u \<and> e_class_id e = ''c1'' \<and> e_status e = ''active'')
                     sample_users = [sample_users ! 0]"
    "u_id (sample_users ! 0) = ''s1''"
    by (simp_all add: sample_enrollments_def sample_users_def)
  have counted: "filter (\<lambda>a. a_class_id a = ''c1'' \<and> a_status a \<noteq> ''draft'') sample_assignments
      = sample_assignments"
    by (simp add: sample_assignments_def)
  have letter: "getLetterGrade (parseFloat (toFixed1 (Fin 70))) = ''C-''"
    by (simp add: round64_at [where e = 6] pow2_def round_even_def getLetterGrade_def)
  have e4: "map grade_entry [rounding_grade] = [(Fin 1259, Fin 2000, Fin 1)]"
    by (simp add: rounding_grade_def grade_entry_def)
  have g4: "spec_gradebook_entries [rounding_grade] ''s4'' sample_assignments =
      [(Fin 1259, Fin 2000, Fin 1)]"
    by (simp add: rounding_grade_def sample_assignments_def spec_gradebook_entries_def
          spec_used_weight_def missing_or_zero_def)
  have fixed: "toFixed1 (Fin (8859424891967897 / 140737488355328)) = Fin (629 / 10)"
    by simp
  from inst entries spec_percentage_example
  have 1: "studentClassAverage sample_grades = Shown (Fin 70)"
    by (simp add: shown_percentage_def)
  from inst gentries spec_percentage_example
  have 2: "fst (gradebookRow sample_grades sample_assignments ''s1'') = Shown (Fin 70)"
    by (simp add: shown_percentage_def)
  from inst9 g9 none
  have 3: "fst (gradebookRow sample_grades sample_assignments ''s9'') = Placeholder"
    by (simp add: shown_percentage_def)
  from inst classes mine entries spec_percentage_example
  have 4: "renderStudentGrades True sample_classes sample_enrollments sample_grades ''s1''
        = ClassTables [(''c1'', Shown (Fin 70))]"
    by (simp add: shown_percentage_def)
  from inst9 mine
  have 5: "renderStudentGrades True sample_classes sample_enrollments sample_grades ''s2''
        = NoGradesMessage"
    by simp
  from inst have "renderClassGradebook True sample_users sample_enrollments sample_assignments
      sample_grades ''c1'' =
        GradebookTable [(''s1'',
           shown_percentage (spec_percentage
              (spec_gradebook_entries sample_grades ''s1'' sample_assignments)),
           shown_letter (spec_percentage
              (spec_gradebook_entries sample_grades ''s1'' sample_assignments)))]"
    unfolding Let_def roster(1) counted by (simp add: roster(2))
  with gentries spec_percentage_example letter
  have 6: "renderClassGradebook True sample_users sample_enrollments sample_assignments
      sample_grades ''c1'' = GradebookTable [(''s1'', Shown (Fin 70), Shown ''C-'')]"
    by (simp add: shown_percentage_def shown_letter_def)
  from inst4 e4 spec_percentage_rounds fixed
  have 7: "studentClassAverage [rounding_grade] = Shown (Fin (629 / 10))"
    by (simp add: shown_percentage_def)
  from inst4 g4 spec_percentage_rounds fixed
  have 8: "fst (gradebookRow [rounding_grade] sample_assignments ''s4'') = Shown (Fin (629 / 10))"
    by (simp add: shown_percentage_def)
  have "snd (gradebookRow [rounding_grade] sample_assignments ''s4'')
      = shown_letter (spec_percentage [(Fin 1259, Fin 2000, Fin 1)])"
    using gradebookRow_letter [of "[rounding_grade]" sample_assignments "''s4''"] g4 by simp
  then have 9: "snd (gradebookRow [rounding_grade] sample_assignments ''s4'') = Shown ''D-''"
    by (simp add: spec_percentage_rounds shown_letter_def round64_rounds getLetterGrade_def)
  from 1 2 3 4 5 6 7 8 9 show ?thesis by (simp add: prod_eq_iff)
qed

text \<open>
  Claim C1 as first stated fails in the teacher's gradebook: one grade of 80/100 whose
  own weight is 0, on an assignment of weight 0, has weights summing to 0, so that the
  formula is undefined on it, yet the gradebook shows 80.0 and not the placeholder.
\<close>

theorem weighted_average_counterexample:
  "g_weight zero_weight_grade = Number (Fin 0)
   \<and> a_weight (sample_assignments ! 1) = Number (Fin 0)
   \<and> spec_percentage [grade_entry zero_weight_grade] = None
   \<and> fst (gradebookRow [zero_weight_grade] sample_assignments ''s2'') = Shown (Fin 80)"
proof -
  have "spec_gradebook_entries [zero_weight_grade] ''s2'' sample_assignments =
      [(Fin 80, Fin 100, Fin (1 / 4))]"
    by (simp add: zero_weight_grade_def sample_assignments_def spec_gradebook_entries_def
          spec_used_weight_def missing_or_zero_def)
  then have "fst (gradebookRow [zero_weight_grade] sample_assignments ''s2'') = Shown (Fin 80)"
    by (simp add: gradebookRow_spec spec_percentage_quarter shown_percentage_def)
  moreover have "spec_percentage [grade_entry zero_weight_grade] = None"
    by (simp add: zero_weight_grade_def grade_entry_def spec_percentage_def
          spec_total_weight_def js_add_def is_inf_def)
  ultimately show ?thesis
    by (simp add: zero_weight_grade_def sample_assignments_def)
qed

text \<open>
  Claim C9, as amended. In the teacher's gradebook a grade whose own weight is missing,
  \<open>null\<close> or 0 is not left out: it is counted with the assignment's weight, or with 0.25
  when that weight is missing, \<open>null\<close>, 0 or \<open>NaN\<close>, and this weight, which is never 0,
  is what the step adds to the total weight and multiplies the grade's ratio with.
\<close>

theorem gradebook_weight_fallback:
  assumes "find (\<lambda>g. g_student_id g = sid \<and> g_assignment_id g = a_id a) gradesData = Some g"
    and "g_weight g = Undefined \<or> g_weight g = Null \<or> g_weight g = Number (Fin 0)
         \<or> g_weight g = Number NegZero"
  shows "\<exists>e. e = (if missing_or_zero (a_weight a) then Fin (1 / 4) else to_number (a_weight a))
           \<and> e \<noteq> Fin 0 \<and> e \<noteq> NegZero \<and> e \<noteq> NaN
           \<and> gradebookStep gradesData sid (tws, tw) a =
               (js_add tws (js_mul (js_div (g_points g) (g_max_points g)) e), js_add tw e)"
proof -
  from assms(2) have "missing_or_zero (g_weight g)" by (auto simp: missing_or_zero_def)
  then have e: "effectiveWeight g a =
      (if missing_or_zero (a_weight a) then Fin (1 / 4) else to_number (a_weight a))"
    by (simp add: effectiveWeight_spec spec_used_weight_def)
  have nz: "effectiveWeight g a \<noteq> Fin 0 \<and> effectiveWeight g a \<noteq> NegZero
      \<and> effectiveWeight g a \<noteq> NaN"
    unfolding e by (cases "a_weight a") (auto simp: missing_or_zero_def)
  have st: "gradebookStep gradesData sid (tws, tw) a =
      (js_add tws (js_mul (js_div (g_points g) (g_max_points g)) (effectiveWeight g a)),
       js_add tw (effectiveWeight g a))"
    using assms(1) by (simp add: gradebookStep_def)
  from e nz st show ?thesis by metis
qed

theorem gradebook_weight_fallback_witness:
  "find (\<lambda>g. g_student_id g = ''s3'' \<and> g_assignment_id g = a_id (sample_assignments ! 1))
      full_marks_grades = Some (full_marks_grades ! 1)
   \<and> g_weight (full_marks_grades ! 1) = Number (Fin 0)
   \<and> missing_or_zero (a_weight (sample_assignments ! 1))
   \<and> gradebookStep full_marks_grades ''s3'' (Fin (1 / 2), Fin (1 / 2)) (sample_assignments ! 1)
        = (Fin (3 / 4), Fin (3 / 4))"
proof -
  have f: "find (\<lambda>g. g_student_id g = ''s3'' \<and> g_assignment_id g = a_id (sample_assignments ! 1))
      full_marks_grades = Some (full_marks_grades ! 1)"
    by (simp add: full_marks_grades_def sample_assignments_def)
  have w: "g_weight (full_marks_grades ! 1) = Number (Fin 0)"
    by (simp add: full_marks_grades_def)
  have fw: "missing_or_zero (a_weight (sample_assignments ! 1))"
    by (simp add: sample_assignments_def missing_or_zero_def)
  have p: "g_points (full_marks_grades ! 1) = Fin 50" "g_max_points (full_marks_grades ! 1) = Fin 50"
    by (simp_all add: full_marks_grades_def)
  have arith: "js_add (Fin (1 / 2)) (js_mul (js_div (Fin 50) (Fin 50)) (Fin (1 / 4))) = Fin (3 / 4)"
    "js_add (Fin (1 / 2)) (Fin (1 / 4)) = Fin (3 / 4)"
    by (simp_all add: js_add_def js_mul_def js_div_def is_inf_def is_zero_def
          round64_at [where e = "-2"] round64_at [where e = "-1"] round64_at [where e = 0]
          pow2_def round_even_def)
  from gradebook_weight_fallback [OF f, of "Fin (1 / 2)" "Fin (1 / 2)"] w fw p f arith
  show ?thesis by simp
qed

text \<open>
  Claim C9 as first stated fails in its last part: a zero-weight grade need not change
  the weighted average. A grade of 50/50 with weight 0 beside a grade of 100/100 leaves
  the average at 100.0, the value computed without it.
\<close>

theorem gradebook_weight_fallback_counterexample:
  "g_weight (full_marks_grades ! 1) = Number (Fin 0)
   \<and> fst (gradebookRow full_marks_grades sample_assignments ''s3'') = Shown (Fin 100)
   \<and> fst (gradebookRow [full_marks_grades ! 0] sample_assignments ''s3'') = Shown (Fin 100)"
proof -
  have "spec_gradebook_entries full_marks_grades ''s3'' sample_assignments =
      [(Fin 100, Fin 100, Fin (1 / 2)), (Fin 50, Fin 50, Fin (1 / 4))]"
    and "spec_gradebook_entries [full_marks_grades ! 0] ''s3'' sample_assignments =
      [(Fin 100, Fin 100, Fin (1 / 2))]"
    by (simp_all add: full_marks_grades_def sample_assignments_def spec_gradebook_entries_def
          spec_used_weight_def missing_or_zero_def)
  then show ?thesis
    by (simp add: gradebookRow_spec spec_percentage_full_marks shown_percentage_def
          full_marks_grades_def)
qed

section \<open>Attendance upsert\<close>

text \<open>\<open>findIndex\<close> finds the first record that satisfies the predicate; replacing
  that record changes the head of the list of matching records and nothing else.\<close>

lemma findIndex_None: "findIndex P xs = None \<longleftrightarrow> filter P xs = []"
  by (induction xs) auto

lemma findIndex_Some:
  "findIndex P xs = Some i \<Longrightarrow> i < length xs \<and> P (xs ! i)"
  by (induction xs arbitrary: i) (auto split: if_splits)

lemma filter_update_first:
  "findIndex P xs = Some i \<Longrightarrow> P y \<Longrightarrow>
   \<exists>rest. filter P xs = xs ! i # rest \<and> filter P (xs[i := y]) = y # rest"
  by (induction xs arbitrary: i) (auto split: if_splits)

lemma filter_update_other:
  "i < length xs \<Longrightarrow> \<not> Q (xs ! i) \<Longrightarrow> \<not> Q y \<Longrightarrow> filter Q (xs[i := y]) = filter Q xs"
proof (induction xs arbitrary: i)
  case Nil
  then show ?case by simp
next
  case (Cons x xs)
  then show ?case by (cases i) auto
qed

lemma same_key_attRecord [simp]:
  "same_key c s d (attRecord rid c' s' d' x u t) = (c' = c \<and> s' = s \<and> d' = d)"
  by (auto simp: same_key_def attRecord_def)

text \<open>The effect of one toggle group on the records of a given student, class and
  date.\<close>

lemma saveToggle_same:
  "filter (same_key c s d) (attendanceData (saveToggle gen c d u t st (Some (s, x)))) =
     (case filter (same_key c s d) (attendanceData st) of
        [] \<Rightarrow> [attRecord (gen (generated st)) c s d x u t]
      | r # rest \<Rightarrow> attRecord (att_id r) c s d x u t # rest)"
proof (cases "findIndex (same_key c s d) (attendanceData st)")
  case None
  then have "filter (same_key c s d) (attendanceData st) = []" by (simp add: findIndex_None)
  with None show ?thesis by (simp add: saveToggle_def)
next
  case (Some i)
  from filter_update_first [OF Some, of "attRecord (att_id (attendanceData st ! i)) c s d x u t"]
  obtain rest where "filter (same_key c s d) (attendanceData st) = attendanceData st ! i # rest"
    and "filter (same_key c s d)
          ((attendanceData st)[i := attRecord (att_id (attendanceData st ! i)) c s d x u t])
         = attRecord (att_id (attendanceData st ! i)) c s d x u t # rest"
    by auto
  with Some show ?thesis by (simp add: saveToggle_def)
qed

lemma saveToggle_other:
  assumes "s' \<noteq> s"
  shows "filter (same_key c s d) (attendanceData (saveToggle gen c d u t st (Some (s', x))))
         = filter (same_key c s d) (attendanceData st)"
proof (cases "findIndex (same_key c s' d) (attendanceData st)")
  case None
  with assms show ?thesis by (simp add: saveToggle_def)
next
  case (Some i)
  from findIndex_Some [OF Some] have i: "i < length (attendanceData st)"
    and k: "same_key c s' d (attendanceData st ! i)" by auto
  from k assms have "\<not> same_key c s d (attendanceData st ! i)" by (auto simp: same_key_def)
  with i assms Some show ?thesis
    by (simp add: saveToggle_def filter_update_other)
qed

lemma saveToggle_None [simp]: "saveToggle gen c d u t st None = st"
  by (simp add: saveToggle_def)

text \<open>The effect of a whole batch on those records.\<close>

lemma fold_keeps_one:
  "filter (same_key c s d) (attendanceData st) = r0 # rest \<Longrightarrow>
   \<exists>r. filter (same_key c s d) (attendanceData (foldl (saveToggle gen c d u t) st b)) = r # rest
       \<and> att_id r = att_id r0"
proof (induction b arbitrary: st r0)
  case Nil
  then show ?case by simp
next
  case (Cons g b)
  show ?case
  proof (cases g)
    case None
    with Cons show ?thesis by simp
  next
    case (Some p)
    obtain s' x where p: "p = (s', x)" by (cases p)
    show ?thesis
    proof (cases "s' = s")
      case True
      with Cons.prems have "filter (same_key c s d) (attendanceData (saveToggle gen c d u t st g))
          = attRecord (att_id r0) c s d x u t # rest"
        by (simp add: Some p saveToggle_same)
      from Cons.IH [OF this] show ?thesis by (simp add: attRecord_def)
    next
      case False
      with Cons.prems have "filter (same_key c s d) (attendanceData (saveToggle gen c d u t st g))
          = r0 # rest"
        by (simp add: Some p saveToggle_other)
      from Cons.IH [OF this] show ?thesis by simp
    qed
  qed
qed

lemma fold_creates_one:
  "filter (same_key c s d) (attendanceData st) = [] \<Longrightarrow> Some (s, x1) \<in> set b \<Longrightarrow>
   \<exists>r. filter (same_key c s d) (attendanceData (foldl (saveToggle gen c d u t) st b)) = [r]"
proof (induction b arbitrary: st)
  case Nil
  then show ?case by simp
next
  case (Cons g b)
  show ?case
  proof (cases g)
    case None
    with Cons show ?thesis by simp
  next
    case (Some p)
    obtain s' x where p: "p = (s', x)" by (cases p)
    show ?thesis
    proof (cases "s' = s")
      case True
      with Cons.prems(1) have "filter (same_key c s d) (attendanceData (saveToggle gen c d u t st g))
          = [attRecord (gen (generated st)) c s d x u t]"
        by (simp add: Some p saveToggle_same)
      from fold_keeps_one [OF this, of gen u t b] show ?thesis by auto
    next
      case False
      with Cons.prems(1) have "filter (same_key c s d) (attendanceData (saveToggle gen c d u t st g)) = []"
        by (simp add: Some p saveToggle_other)
      moreover from Cons.prems(2) False Some p have "Some (s, x1) \<in> set b" by auto
      ultimately show ?thesis using Cons.IH by simp
    qed
  qed
qed

lemma fold_overwrites:
  "filter (same_key c s d) (attendanceData st) = r0 # rest \<Longrightarrow>
   \<forall>x. Some (s, x) \<in> set b \<longrightarrow> x = x2 \<Longrightarrow>
   filter (same_key c s d) (attendanceData (foldl (saveToggle gen c d u t) st b)) =
     (if Some (s, x2) \<in> set b then attRecord (att_id r0) c s d x2 u t # rest else r0 # rest)"
proof (induction b arbitrary: st r0)
  case Nil
  then show ?case by simp
next
  case (Cons g b)
  from Cons.prems(2) have all: "\<forall>x. Some (s, x) \<in> set b \<longrightarrow> x = x2" by auto
  show ?case
  proof (cases g)
    case None
    from Cons.IH [OF _ all, of st r0] Cons.prems(1) None show ?thesis by simp
  next
    case (Some p)
    obtain s' x where p: "p = (s', x)" by (cases p)
    show ?thesis
    proof (cases "s' = s")
      case True
      from Cons.prems(2) have "Some (s, x) \<in> set (g # b) \<longrightarrow> x = x2" by blast
      with True Some p have x: "x = x2" by simp
      have g: "g = Some (s, x2)" using Some p True x by simp
      from Cons.prems(1) have "filter (same_key c s d) (attendanceData (saveToggle gen c d u t st g))
          = attRecord (att_id r0) c s d x2 u t # rest"
        by (simp add: g saveToggle_same)
      from Cons.IH [OF this all] have "filter (same_key c s d)
           (attendanceData (foldl (saveToggle gen c d u t) (saveToggle gen c d u t st g) b)) =
          attRecord (att_id r0) c s d x2 u t # rest"
        by (simp add: attRecord_def)
      then show ?thesis by (simp add: g)
    next
      case False
      with Cons.prems(1) have "filter (same_key c s d) (attendanceData (saveToggle gen c d u t st g))
          = r0 # rest"
        by (simp add: Some p saveToggle_other)
      from Cons.IH [OF this all] False show ?thesis by (simp add: Some p)
    qed
  qed
qed

text \<open>A student without a pressed button in the batch keeps the records they have, and
  so do the records of every other class or date.\<close>

lemma fold_untouched:
  "\<forall>x. Some (s, x) \<notin> set b \<Longrightarrow>
   filter (same_key c s d) (attendanceData (foldl (saveToggle gen c d u t) st b))
   = filter (same_key c s d) (attendanceData st)"
proof (induction b arbitrary: st)
  case Nil
  then show ?case by simp
next
  case (Cons g b)
  from Cons.prems have rest: "\<forall>x. Some (s, x) \<notin> set b" by auto
  show ?case
  proof (cases g)
    case None
    with Cons.IH [OF rest] show ?thesis by simp
  next
    case (Some p)
    obtain s' x where p: "p = (s', x)" by (cases p)
    from Cons.prems Some p have "s' \<noteq> s" by auto
    then have "filter (same_key c s d) (attendanceData (saveToggle gen c d u t st g))
        = filter (same_key c s d) (attendanceData st)"
      by (simp add: Some p saveToggle_other)
    with Cons.IH [OF rest, of "saveToggle gen c d u t st g"] show ?thesis by simp
  qed
qed

lemma saveToggle_other_key:
  assumes "c' \<noteq> c \<or> d' \<noteq> d"
  shows "filter (same_key c' s d') (attendanceData (saveToggle gen c d u t st g))
         = filter (same_key c' s d') (attendanceData st)"
proof (cases g)
  case None
  then show ?thesis by simp
next
  case (Some p)
  obtain s' x where p: "p = (s', x)" by (cases p)
  show ?thesis
  proof (cases "findIndex (same_key c s' d) (attendanceData st)")
    case None
    with assms show ?thesis by (auto simp: saveToggle_def Some p)
  next
    case (Some i)
    from findIndex_Some [OF Some] have i: "i < length (attendanceData st)"
      and k: "same_key c s' d (attendanceData st ! i)" by auto
    from k assms have "\<not> same_key c' s d' (attendanceData st ! i)" by (auto simp: same_key_def)
    with i assms Some show ?thesis
      by (auto simp: saveToggle_def \<open>g = Some p\<close> p filter_update_other)
  qed
qed

text \<open>
  Claim C4. When the table holds no record for a class, student and date, and
  attendance is saved twice for that class and date, the student being marked in both
  batches (in the second with one status only), then both saves go through, after the
  first the table holds exactly one record for the triple, and after the second it
  still holds exactly one: the record of the second marking, with the identifier given
  by the first save and the status of the second.
\<close>

theorem attendance_upsert_twice:
  assumes "filter (same_key c s d) data = []"
    and "Some (s, x1) \<in> set b1"
    and "Some (s, x2) \<in> set b2"
    and "\<forall>x. Some (s, x) \<in> set b2 \<longrightarrow> x = x2"
  shows "\<exists>st1 st2 r1 r2.
           saveAttendance gen1 (Some b1) c d u1 t1 data = Some st1
           \<and> saveAttendance gen2 (Some b2) c d u2 t2 (attendanceData st1) = Some st2
           \<and> filter (same_key c s d) (attendanceData st1) = [r1]
           \<and> filter (same_key c s d) (attendanceData st2) = [r2]
           \<and> r2 = attRecord (att_id r1) c s d x2 u2 t2
           \<and> att_id r2 = att_id r1 \<and> att_status r2 = x2"
proof -
  define st1 where "st1 = foldl (saveToggle gen1 c d u1 t1)
      \<lparr>attendanceData = data, generated = 0, count = 0\<rparr> b1"
  define st2 where "st2 = foldl (saveToggle gen2 c d u2 t2)
      \<lparr>attendanceData = attendanceData st1, generated = 0, count = 0\<rparr> b2"
  have s1: "saveAttendance gen1 (Some b1) c d u1 t1 data = Some st1"
    by (simp add: saveAttendance_def st1_def)
  have s2: "saveAttendance gen2 (Some b2) c d u2 t2 (attendanceData st1) = Some st2"
    by (simp add: saveAttendance_def st2_def)
  from fold_creates_one [of c s d "\<lparr>attendanceData = data, generated = 0, count = 0\<rparr>" x1 b1 gen1 u1 t1]
    assms(1,2)
  obtain r1 where r1: "filter (same_key c s d) (attendanceData st1) = [r1]"
    by (auto simp: st1_def)
  from fold_overwrites [of c s d "\<lparr>attendanceData = attendanceData st1, generated = 0, count = 0\<rparr>"
      r1 "[]" b2 x2 gen2 u2 t2, OF _ assms(4)] r1 assms(3)
  have r2: "filter (same_key c s d) (attendanceData st2) = [attRecord (att_id r1) c s d x2 u2 t2]"
    by (simp add: st2_def)
  have "att_id (attRecord (att_id r1) c s d x2 u2 t2) = att_id r1"
    and "att_status (attRecord (att_id r1) c s d x2 u2 t2) = x2"
    by (simp_all add: attRecord_def)
  with s1 s2 r1 r2 show ?thesis by blast
qed

theorem attendance_upsert_twice_witness:
  "filter (same_key ''c1'' ''s2'' ''2024-03-01'') sample_attendance = []
   \<and> saveAttendance sample_ids (Some [Some (''s2'', ''present''), None]) ''c1'' ''2024-03-01'' ''t1'' ''T1''
        sample_attendance
       = Some \<lparr>attendanceData =
                 sample_attendance @ [attRecord ''att-new-'' ''c1'' ''s2'' ''2024-03-01'' ''present'' ''t1'' ''T1''],
               generated = 1, count = 1\<rparr>
   \<and> saveAttendance sample_ids (Some [Some (''s2'', ''late'')]) ''c1'' ''2024-03-01'' ''t2'' ''T2''
        (sample_attendance @ [attRecord ''att-new-'' ''c1'' ''s2'' ''2024-03-01'' ''present'' ''t1'' ''T1''])
       = Some \<lparr>attendanceData =
                 sample_attendance @ [attRecord ''att-new-'' ''c1'' ''s2'' ''2024-03-01'' ''late'' ''t2'' ''T2''],
               generated = 0, count = 1\<rparr>
   \<and> (\<exists>st1 st2 r1 r2.
         saveAttendance sample_ids (Some [Some (''s2'', ''present''), None]) ''c1'' ''2024-03-01''
             ''t1'' ''T1'' sample_attendance = Some st1
         \<and> saveAttendance sample_ids (Some [Some (''s2'', ''late'')]) ''c1'' ''2024-03-01''
             ''t2'' ''T2'' (attendanceData st1) = Some st2
         \<and> filter (same_key ''c1'' ''s2'' ''2024-03-01'') (attendanceData st1) = [r1]
         \<and> filter (same_key ''c1'' ''s2'' ''2024-03-01'') (attendanceData st2) = [r2]
         \<and> r2 = attRecord (att_id r1) ''c1'' ''s2'' ''2024-03-01'' ''late'' ''t2'' ''T2''
         \<and> att_id r2 = att_id r1 \<and> att_status r2 = ''late'')"
proof -
  have h1: "filter (same_key ''c1'' ''s2'' ''2024-03-01'') sample_attendance = []"
    by (simp add: sample_attendance_def same_key_def)
  have h2: "saveAttendance sample_ids (Some [Some (''s2'', ''present''), None]) ''c1'' ''2024-03-01'' ''t1'' ''T1''
        sample_attendance
       = Some \<lparr>attendanceData =
                 sample_attendance @ [attRecord ''att-new-'' ''c1'' ''s2'' ''2024-03-01'' ''present'' ''t1'' ''T1''],
               generated = 1, count = 1\<rparr>"
    by (simp add: saveAttendance_def saveToggle_def sample_attendance_def same_key_def sample_ids_def)
  have h3: "saveAttendance sample_ids (Some [Some (''s2'', ''late'')]) ''c1'' ''2024-03-01'' ''t2'' ''T2''
        (sample_attendance @ [attRecord ''att-new-'' ''c1'' ''s2'' ''2024-03-01'' ''present'' ''t1'' ''T1''])
       = Some \<lparr>attendanceData =
                 sample_attendance @ [attRecord ''att-new-'' ''c1'' ''s2'' ''2024-03-01'' ''late'' ''t2'' ''T2''],
               generated = 0, count = 1\<rparr>"
    by (simp add: saveAttendance_def saveToggle_def sample_attendance_def same_key_def attRecord_def)
  have h4: "Some (''s2'', ''present'') \<in> set [Some (''s2'', ''present''), None]" by simp
  have h5: "Some (''s2'', ''late'') \<in> set [Some (''s2'', ''late'')]" by simp
  have h6: "\<forall>x. Some (''s2'', x) \<in> set [Some (''s2'', ''late'')] \<longrightarrow> x = ''late''" by simp
  note inst = attendance_upsert_twice [OF h1 h4 h5 h6,
      of sample_ids "''t1''" "''T1''" sample_ids "''t2''" "''T2''"]
  from h1 h2 h3 inst show ?thesis by (intro conjI)
qed

text \<open>
  Claim C10. When a marking finds a record with the same class, student and date, that
  record is replaced by one that keeps its identifier only: status, recorder and
  recording time are those of the new marking and the note is \<open>null\<close>, whatever note
  the old record held. No other record changes and no identifier is generated.
\<close>

theorem saveToggle_overwrite:
  assumes "findIndex (same_key classId studentId date) (attendanceData st) = Some i"
  shows "attendanceData (saveToggle gen classId date userId now st (Some (studentId, status))) =
           (attendanceData st)
             [i := \<lparr>att_id = att_id (attendanceData st ! i), att_class_id = classId,
                    att_student_id = studentId, att_date = date, att_status = status,
                    att_recorded_by = Some userId, att_recorded_at = Some now, att_note = None\<rparr>]
         \<and> att_class_id (attendanceData st ! i) = classId
         \<and> att_student_id (attendanceData st ! i) = studentId
         \<and> att_date (attendanceData st ! i) = date
         \<and> i < length (attendanceData st)
         \<and> generated (saveToggle gen classId date userId now st (Some (studentId, status))) = generated st"
  using assms findIndex_Some [OF assms]
  by (simp add: saveToggle_def attRecord_def same_key_def)

theorem saveToggle_overwrite_witness:
  "findIndex (same_key ''c1'' ''s1'' ''2024-03-01'') sample_attendance = Some 0
   \<and> att_note (sample_attendance ! 0) = Some ''Sick''
   \<and> attendanceData (saveToggle sample_ids ''c1'' ''2024-03-01'' ''t2'' ''T2''
         \<lparr>attendanceData = sample_attendance, generated = 0, count = 0\<rparr> (Some (''s1'', ''present'')))
      = [\<lparr>att_id = ''att-001'', att_class_id = ''c1'', att_student_id = ''s1'',
          att_date = ''2024-03-01'', att_status = ''present'', att_recorded_by = Some ''t2'',
          att_recorded_at = Some ''T2'', att_note = None\<rparr>]"
proof -
  have h: "findIndex (same_key ''c1'' ''s1'' ''2024-03-01'')
      (attendanceData \<lparr>attendanceData = sample_attendance, generated = 0, count = 0\<rparr>) = Some 0"
    by (simp add: sample_attendance_def same_key_def)
  from saveToggle_overwrite [OF h, of sample_ids "''t2''" "''T2''" "''present''"] h
  show ?thesis by (simp add: sample_attendance_def)
qed

section \<open>CSV round trip\<close>

text \<open>Reading one encoded field: an unquoted field up to its end, and the body of a
  quoted field up to the closing quote.\<close>

lemma parse_unquoted:
  "COMMA \<notin> set v \<Longrightarrow> DQUOTE \<notin> set v \<Longrightarrow> LF \<notin> set v \<Longrightarrow>
   parse_chars (v @ rest) False f row rows = parse_chars rest False (f @ v) row rows"
  by (induction v arbitrary: f) auto

lemma parse_quoted_body:
  "ok_rest rest \<Longrightarrow>
   parse_chars (concat (map (\<lambda>c. if c = DQUOTE then [DQUOTE, DQUOTE] else [c]) v) @ DQUOTE # rest)
      True f row rows
   = parse_chars rest False (f @ v) row rows"
proof (induction v arbitrary: f)
  case Nil
  then show ?case by (cases rest) (simp_all add: ok_rest_def)
next
  case (Cons c v)
  then show ?case by simp
qed

lemma parse_field:
  assumes "ok_rest rest"
  shows "parse_chars (escape_value v @ rest) False f row rows = parse_chars rest False (f @ v) row rows"
proof (cases "COMMA \<in> set v \<or> DQUOTE \<in> set v \<or> LF \<in> set v")
  case True
  then have "escape_value v @ rest =
      DQUOTE # (concat (map (\<lambda>c. if c = DQUOTE then [DQUOTE, DQUOTE] else [c]) v) @ DQUOTE # rest)"
    by (simp add: escape_value_def)
  then show ?thesis using parse_quoted_body [OF assms] by simp
next
  case False
  then show ?thesis by (simp add: escape_value_def parse_unquoted)
qed

lemma parse_line:
  "vs \<noteq> [] \<Longrightarrow> ok_rest rest \<Longrightarrow>
   parse_chars (join [COMMA] (map escape_value vs) @ rest) False [] row rows
   = parse_chars rest False (last vs) (row @ map trim (butlast vs)) rows"
proof (induction vs arbitrary: row rule: list_nonempty_induct)
  case (single v)
  then show ?case using parse_field [of rest v "[]"] by simp
next
  case (cons v vs)
  then obtain w ws where vs: "vs = w # ws" by (cases vs) auto
  have ok: "ok_rest (COMMA # join [COMMA] (map escape_value vs) @ rest)" by (simp add: ok_rest_def)
  have "parse_chars (join [COMMA] (map escape_value (v # vs)) @ rest) False [] row rows
      = parse_chars (escape_value v @ (COMMA # join [COMMA] (map escape_value vs) @ rest)) False [] row rows"
    by (simp add: vs)
  also have "\<dots> = parse_chars (COMMA # join [COMMA] (map escape_value vs) @ rest) False v row rows"
    using parse_field [OF ok, of v "[]"] by simp
  also have "\<dots> = parse_chars (join [COMMA] (map escape_value vs) @ rest) False [] (row @ [trim v]) rows"
    by simp
  also have "\<dots> = parse_chars rest False (last vs) ((row @ [trim v]) @ map trim (butlast vs)) rows"
    using cons.IH [OF cons.prems] by simp
  finally show ?case using cons.hyps by simp
qed

lemma good_line_push:
  assumes "good_line vs"
  shows "push_row (map trim (butlast vs) @ [trim (last vs)]) rows = rows @ [vs]"
proof -
  from assms have ne: "vs \<noteq> []" by (auto simp: good_line_def)
  from assms have "map trim vs = vs" by (simp add: good_line_def map_idI)
  moreover have "map trim (butlast vs) @ [trim (last vs)] = map trim vs"
    using ne by (metis append_butlast_last_id list.simps(8,9) map_append)
  ultimately show ?thesis using assms by (simp add: push_row_def good_line_def)
qed

lemma parse_lines:
  "ls \<noteq> [] \<Longrightarrow> \<forall>l \<in> set ls. good_line l \<Longrightarrow>
   parse_chars (join [LF] (map (\<lambda>l. join [COMMA] (map escape_value l)) ls)) False [] [] rows
   = rows @ ls"
proof (induction ls arbitrary: rows rule: list_nonempty_induct)
  case (single l)
  then have g: "good_line l" by simp
  then have ne: "l \<noteq> []" by (auto simp: good_line_def)
  have "parse_chars (join [COMMA] (map escape_value l) @ []) False [] [] rows
      = parse_chars [] False (last l) ([] @ map trim (butlast l)) rows"
    by (rule parse_line [OF ne]) (simp add: ok_rest_def)
  then show ?case using good_line_push [OF g] by simp
next
  case (cons l ls)
  then obtain m ms where ls: "ls = m # ms" by (cases ls) auto
  from cons.prems have g: "good_line l" by simp
  then have ne: "l \<noteq> []" by (auto simp: good_line_def)
  let ?rest = "LF # join [LF] (map (\<lambda>l. join [COMMA] (map escape_value l)) ls)"
  have ok: "ok_rest ?rest" by (simp add: ok_rest_def)
  have "parse_chars (join [LF] (map (\<lambda>l. join [COMMA] (map escape_value l)) (l # ls))) False [] [] rows
      = parse_chars (join [COMMA] (map escape_value l) @ ?rest) False [] [] rows"
    by (simp add: ls)
  also have "\<dots> = parse_chars ?rest False (last l) ([] @ map trim (butlast l)) rows"
    by (rule parse_line [OF ne ok])
  also have "\<dots> = parse_chars (join [LF] (map (\<lambda>l. join [COMMA] (map escape_value l)) ls))
        False [] [] (rows @ [l])"
    using good_line_push [OF g] by simp
  also have "\<dots> = (rows @ [l]) @ ls"
    using cons.IH cons.prems by simp
  finally show ?case by simp
qed

lemma replace_crlf_id: "CR \<notin> set cs \<Longrightarrow> replace_crlf cs = cs"
  by (induction cs rule: replace_crlf.induct) auto

lemma replace_cr_id: "CR \<notin> set cs \<Longrightarrow> replace_cr cs = cs"
  by (induction cs) (auto simp: replace_cr_def)

lemma set_join: "set (join sep xs) \<subseteq> set sep \<union> \<Union> (set ` set xs)"
  by (induction sep xs rule: join.induct) auto

lemma set_escape_value: "set (escape_value v) \<subseteq> insert DQUOTE (set v)"
  by (auto simp: escape_value_def split: if_splits)

lemma escape_value_plain:
  "COMMA \<notin> set v \<Longrightarrow> DQUOTE \<notin> set v \<Longrightarrow> LF \<notin> set v \<Longrightarrow> escape_value v = v"
  by (simp add: escape_value_def)

lemma no_cr_text:
  assumes "\<forall>l \<in> set ls. \<forall>v \<in> set l. CR \<notin> set v"
  shows "CR \<notin> set (join [LF] (map (\<lambda>l. join [COMMA] (map escape_value l)) ls))"
proof
  assume "CR \<in> set (join [LF] (map (\<lambda>l. join [COMMA] (map escape_value l)) ls))"
  with set_join [of "[LF]" "map (\<lambda>l. join [COMMA] (map escape_value l)) ls"]
  obtain l where l: "l \<in> set ls" and "CR \<in> set (join [COMMA] (map escape_value l))" by auto
  with set_join [of "[COMMA]" "map escape_value l"]
  obtain v where v: "v \<in> set l" and "CR \<in> set (escape_value v)" by auto
  with set_escape_value [of v] have "CR \<in> set v" by auto
  with assms l v show False by blast
qed

text \<open>
  Claim C3, as amended. Let the record list be non-empty, let the column names be free
  of commas, double quotes, line feeds and carriage returns, unchanged by \<open>trim\<close> and
  not all empty, and let the text \<open>String(row[c] ?? '')\<close> of every record's listed
  fields be free of carriage returns, unchanged by \<open>trim\<close> and not all empty in a
  record. Then parsing the serialized text gives the header row with the column names
  in order, followed by one row per record holding the text of each listed field, in
  order; fields may contain commas, double quotes and line feeds. The text of a field
  is the empty string for \<open>null\<close> and for a column that the record neither has nor
  inherits, and the text of the inherited built-in for a column such as \<open>toString\<close>.
\<close>

theorem csv_round_trip:
  assumes "data \<noteq> []"
    and "\<forall>h \<in> set cols. COMMA \<notin> set h \<and> DQUOTE \<notin> set h \<and> LF \<notin> set h \<and> CR \<notin> set h \<and> trim h = h"
    and "\<exists>h \<in> set cols. h \<noteq> []"
    and "\<forall>row \<in> set data. \<forall>c \<in> set cols.
           CR \<notin> set (field_text builtin row c)
           \<and> trim (field_text builtin row c) = field_text builtin row c"
    and "\<forall>row \<in> set data. \<exists>c \<in> set cols. field_text builtin row c \<noteq> []"
  shows "\<exists>csv. exportCSV builtin data filename (Some cols) = Some (filename, csv)
           \<and> parseCSV csv = cols # map (\<lambda>row. map (field_text builtin row) cols) data"
proof -
  let ?ls = "cols # map (\<lambda>row. map (field_text builtin row) cols) data"
  let ?csv = "join [LF] (map (\<lambda>l. join [COMMA] (map escape_value l)) ?ls)"
  from assms(2) have "map escape_value cols = cols"
    by (simp add: escape_value_plain map_idI)
  then have ex: "exportCSV builtin data filename (Some cols) = Some (filename, ?csv)"
    using assms(1) by (simp add: exportCSV_def Let_def comp_def)
  have good: "\<forall>l \<in> set ?ls. good_line l"
    using assms(2,3,4,5) by (auto simp: good_line_def)
  have "\<forall>l \<in> set ?ls. \<forall>v \<in> set l. CR \<notin> set v"
    using assms(2,4) by auto
  from no_cr_text [OF this] have "replace_cr (replace_crlf ?csv) = ?csv"
    by (simp add: replace_crlf_id replace_cr_id)
  then have "parseCSV ?csv = parse_chars ?csv False [] [] []"
    by (simp add: parseCSV_def)
  also have "\<dots> = [] @ ?ls"
    by (rule parse_lines [OF _ good]) simp
  finally show ?thesis using ex by simp
qed

lemma trim_samples:
  "trim ''id'' = ''id''" "trim ''title'' = ''title''" "trim ''note'' = ''note''"
  "trim ''toString'' = ''toString''" "trim ''a1'' = ''a1''" "trim ''a2'' = ''a2''"
  "trim [] = []"
  "trim ''Say \"Hi\", please'' = ''Say \"Hi\", please''"
  "trim (CHR ''t'' # CHR ''w'' # CHR ''o'' # LF # ''lines'')
     = CHR ''t'' # CHR ''w'' # CHR ''o'' # LF # ''lines''"
  "trim ''function toString() { [native code] }'' = ''function toString() { [native code] }''"
  "trim '' Essay'' = ''Essay''"
  by (simp_all add: trim_def is_space_def white_space_def is_continuation_def)

theorem csv_round_trip_witness:
  "sample_rows \<noteq> []
   \<and> (\<exists>h \<in> set [''id'', ''title'', ''note'', ''toString'']. h \<noteq> [])
   \<and> (\<exists>csv. exportCSV node_text sample_rows ''export.csv''
                (Some [''id'', ''title'', ''note'', ''toString''])
                = Some (''export.csv'', csv)
           \<and> parseCSV csv =
               [[''id'', ''title'', ''note'', ''toString''],
                [''a1'', ''Say \"Hi\", please'', [], ''function toString() { [native code] }''],
                [''a2'', ''two'' @ [LF] @ ''lines'', [],
                 ''function toString() { [native code] }'']])"
proof -
  let ?cols = "[''id'', ''title'', ''note'', ''toString'']"
  have m: "map (\<lambda>row. map (field_text node_text row) ?cols) sample_rows =
       [[''a1'', ''Say \"Hi\", please'', [], ''function toString() { [native code] }''],
        [''a2'', ''two'' @ [LF] @ ''lines'', [], ''function toString() { [native code] }'']]"
    by (simp add: sample_rows_def field_text_def get_prop_def object_prototype_keys_def
          node_text_def)
  have h1: "sample_rows \<noteq> []" by (simp add: sample_rows_def)
  have h2: "\<forall>h \<in> set ?cols.
         COMMA \<notin> set h \<and> DQUOTE \<notin> set h \<and> LF \<notin> set h \<and> CR \<notin> set h \<and> trim h = h"
    by (simp add: trim_samples)
  have h3: "\<exists>h \<in> set ?cols. h \<noteq> []" by simp
  have "\<forall>l \<in> set (map (\<lambda>row. map (field_text node_text row) ?cols) sample_rows).
          \<forall>v \<in> set l. CR \<notin> set v \<and> trim v = v"
    unfolding m by (simp add: trim_samples)
  then have h4: "\<forall>row \<in> set sample_rows. \<forall>c \<in> set ?cols.
           CR \<notin> set (field_text node_text row c)
           \<and> trim (field_text node_text row c) = field_text node_text row c"
    by simp
  have "\<forall>l \<in> set (map (\<lambda>row. map (field_text node_text row) ?cols) sample_rows).
          \<exists>v \<in> set l. v \<noteq> []"
    unfolding m by simp
  then have h5: "\<forall>row \<in> set sample_rows. \<exists>c \<in> set ?cols. field_text node_text row c \<noteq> []"
    by simp
  from csv_round_trip [OF h1 h2 h3 h4 h5, of "''export.csv''"] m h1 h3
  show ?thesis by simp
qed

text \<open>
  Claim C3 as first stated fails: the parser trims every field, so a title with a
  leading space comes back without it.
\<close>

theorem csv_round_trip_counterexample:
  "exportCSV node_text padded_rows ''export.csv'' (Some [''title''])
     = Some (''export.csv'', ''title'' @ [LF] @ '' Essay'')
   \<and> parseCSV (''title'' @ [LF] @ '' Essay'') = [[''title''], [''Essay'']]
   \<and> map (\<lambda>row. map (field_text node_text row) [''title'']) padded_rows = [['' Essay'']]"
  by (simp add: padded_rows_def exportCSV_def escape_value_def field_text_def get_prop_def
        parseCSV_def replace_cr_def push_row_def trim_samples)

section \<open>The import command line\<close>

lemma trim_id: "trim ''id'' = ''id''"
  by (simp add: trim_def is_space_def white_space_def is_continuation_def)

lemma trim_7: "trim ''7'' = ''7''"
  by (simp add: trim_def is_space_def white_space_def is_continuation_def)

text \<open>
  Claim C7, as amended. Called with fewer than two arguments, the script prints the
  usage message, which lists the entity names, and exits with code 0.
\<close>

theorem main_usage:
  "length args < 2 \<Longrightarrow> main rt files args = ([Log (Usage (map fst FIELD_MAPS))], Exit 0)"
  by (simp add: main_def)

theorem main_usage_witness:
  "length [''students.csv''] < 2
   \<and> main sample_runtime Map.empty [''students.csv''] =
       ([Log (Usage [''users'', ''classes'', ''enrollments'', ''attendance'', ''assignments'',
                     ''submissions'', ''grades'', ''timetable'', ''announcements''])], Exit 0)"
  using main_usage [of "[''students.csv'']" sample_runtime Map.empty]
  by (simp add: FIELD_MAPS_def)

text \<open>Claim C7 as first stated fails: without arguments the exit code is 0, not a
  non-zero code.\<close>

theorem main_usage_counterexample:
  "snd (main sample_runtime Map.empty []) = Exit 0"
  by (simp add: main_def)

text \<open>
  Claim C6. An entity name outside the nine tables is to be rejected before anything
  is written. The script does not reject the name \<open>toString\<close>, which the lookup in
  \<open>FIELD_MAPS\<close> finds in \<open>Object.prototype\<close>: on an input file holding the header line
  \<open>id\<close> it prints no error, writes an empty array to \<open>data/sample/toString.json\<close> and
  ends normally.
\<close>

theorem main_inherited_entity:
  "main rt [''in.csv'' \<mapsto> ''id''] [''in.csv'', ''toString''] =
     ([Log (Converting ''in.csv'' ''toString''), Log (Parsed 0 1), Log (Converted 0),
       WriteFile ''data/sample/toString.json'' [], Log (Written ''data/sample/toString.json'')],
      Completed)"
  by (simp add: main_def parseCSV_def replace_cr_def push_row_def trim_id Let_def
         convertCSV_def get_prop_def FIELD_MAPS_def object_prototype_keys_def default_output_def)

text \<open>The same happens for every name inherited from \<open>Object.prototype\<close> and every
  input file with at least one non-blank row: the file is written and the run ends
  normally. With a data row, the record gets the generated identifier only.\<close>

lemma FIELD_MAPS_names:
  "map fst FIELD_MAPS =
     [''users'', ''classes'', ''enrollments'', ''attendance'', ''assignments'',
      ''submissions'', ''grades'', ''timetable'', ''announcements'']"
  by (simp add: FIELD_MAPS_def)

lemma get_prop_inherited:
  assumes "entity \<in> set object_prototype_keys"
  shows "get_prop FIELD_MAPS entity = Inherited entity"
proof -
  from assms have "entity \<notin> set (map fst FIELD_MAPS)"
    unfolding FIELD_MAPS_names by (auto simp: object_prototype_keys_def)
  then have "map_of FIELD_MAPS entity = None"
    by (simp add: map_of_eq_None_iff)
  with assms show ?thesis by (simp add: get_prop_def)
qed

lemma main_inherited_entity_writes:
  assumes "files inputFile = Some csvText" and "parseCSV csvText \<noteq> []"
    and "entity \<in> set object_prototype_keys"
  shows "\<exists>records. WriteFile (default_output entity) records \<in> set (fst (main rt files [inputFile, entity]))
           \<and> snd (main rt files [inputFile, entity]) = Completed"
  using assms get_prop_inherited [OF assms(3)]
  by (auto simp: main_def Let_def convertCSV_def split: list.splits)

lemma show_nat_1: "show_nat (Suc 0) = ''1''"
  by code_simp

lemma main_inherited_entity_with_rows:
  "main sample_runtime [''in.csv'' \<mapsto> ''id'' @ [LF] @ ''7''] [''in.csv'', ''toString''] =
     ([Log (Converting ''in.csv'' ''toString''), Log (Parsed 1 1), Log (Converted 1),
       WriteFile ''data/sample/toString.json'' [[''id'' \<mapsto> Str ''t-imported-1'']],
       Log (Written ''data/sample/toString.json'')],
      Completed)"
  by (simp add: main_def parseCSV_def replace_cr_def push_row_def trim_id trim_7 Let_def
         convertCSV_def get_prop_inherited object_prototype_keys_def default_output_def
         convert_row_def convert_cell_def lookup_header_def sample_runtime_def ascii_lower_def
         is_space_def white_space_def is_continuation_def show_nat_1)

text \<open>Every other unknown name is rejected with the list of the nine names and exit
  code 1, and the run writes no file.\<close>

lemma convertCSV_unknown:
  "entity \<notin> set (map fst FIELD_MAPS) \<Longrightarrow> entity \<notin> set object_prototype_keys \<Longrightarrow>
   convertCSV rt rows entity =
     ([Error (UnknownEntity entity), Error (Available (map fst FIELD_MAPS))], Inl (Exit 1))"
  by (simp add: convertCSV_def get_prop_def map_of_eq_None_iff [THEN iffD2])

lemma main_unknown_no_write:
  assumes "2 \<le> length args"
    and "args ! 1 \<notin> set (map fst FIELD_MAPS)" and "args ! 1 \<notin> set object_prototype_keys"
  shows "\<forall>e \<in> set (fst (main rt files args)). \<forall>p rs. e \<noteq> WriteFile p rs"
    and "snd (main rt files args) \<noteq> Completed"
  using assms convertCSV_unknown [OF assms(2,3), of rt]
  by (auto simp: main_def Let_def split: option.splits list.splits)


section \<open>Loading a data set\<close>

text \<open>
  Claim C8. Without an overlay, an unreadable or malformed baseline is to give the
  empty array and a warning. When the response is \<open>ok\<close> and its body is not valid JSON,
  \<open>loadData\<close> instead rejects with the \<open>SyntaxError\<close> of \<open>response.json()\<close> and logs
  nothing.
\<close>

theorem loadData_malformed_baseline:
  assumes "localStorage br (STORAGE_PREFIX @ name) = None"
    and "fetch br (getBasePath (pathname br) @ DATA_BASE @ name @ ''.json'') = Response True status body"
    and "JSON_parse body = None"
  shows "settled (loadData JSON_parse br name) = Rejected ''SyntaxError''
         \<and> warned (loadData JSON_parse br name) = []"
  using assms by (simp add: loadData_def fetchStatic_def)

theorem loadData_malformed_baseline_witness:
  "localStorage sample_browser (STORAGE_PREFIX @ ''users'') = None
   \<and> fetch sample_browser (getBasePath (pathname sample_browser) @ DATA_BASE @ ''users'' @ ''.json'')
       = Response True 200 ''<!DOCTYPE html>''
   \<and> sample_parse ''<!DOCTYPE html>'' = None
   \<and> settled (loadData sample_parse sample_browser ''users'') = Rejected ''SyntaxError''
   \<and> warned (loadData sample_parse sample_browser ''users'') = []"
proof -
  have h1: "localStorage sample_browser (STORAGE_PREFIX @ ''users'') = None"
    by (simp add: sample_browser_def)
  have h2: "fetch sample_browser (getBasePath (pathname sample_browser) @ DATA_BASE @ ''users'' @ ''.json'')
       = Response True 200 ''<!DOCTYPE html>''"
    by (simp add: sample_browser_def getBasePath_def DATA_BASE_def)
  have h3: "sample_parse ''<!DOCTYPE html>'' = None"
    by (simp add: sample_parse_def)
  from loadData_malformed_baseline [of sample_browser "''users''" 200 "''<!DOCTYPE html>''" sample_parse,
      OF h1 h2 h3] h1 h2 h3
  show ?thesis by simp
qed

text \<open>A response that is not \<open>ok\<close> does give the empty array and one warning, and a
  malformed overlay is removed before the baseline is fetched.\<close>

lemma loadData_fetch_not_ok:
  assumes "localStorage br (STORAGE_PREFIX @ name) = None"
    and "fetch br (getBasePath (pathname br) @ DATA_BASE @ name @ ''.json'') = Response False status body"
  shows "settled (loadData JSON_parse br name) = Resolved (JArray [])
         \<and> warned (loadData JSON_parse br name) = [FailedToLoad name status]"
  using assms by (simp add: loadData_def fetchStatic_def)

lemma loadData_malformed_overlay:
  assumes "localStorage br (STORAGE_PREFIX @ name) = Some cached" and "cached \<noteq> []"
    and "JSON_parse cached = None"
  shows "loadData JSON_parse br name =
           fetchStatic JSON_parse br name ((localStorage br)(STORAGE_PREFIX @ name := None))"
  using assms by (simp add: loadData_def)

end
